theory Spec2Isabelle
  imports Main "HOL-Library.Word" "HOL-Library.Sublist"
begin

section \<open>The HKP server (src/daemon/seahorse-hkp-server.c)\<close>

text \<open>
  Conventions of the embedding. A C string (\<^verbatim>\<open>const gchar *\<close>) is a \<^typ>\<open>string\<close>
  holding the bytes before the terminating NUL; a pointer that may be \<^verbatim>\<open>NULL\<close> is an
  \<^typ>\<open>string option\<close>. A \<^verbatim>\<open>printf\<close> format is a function that appends its
  arguments between the literal pieces of the format. The carriage return and line feed
  of the formats are \<open>CRLF\<close>.
\<close>

subsection \<open>Text helpers of the C library\<close>

definition CRLF :: string where
  "CRLF = [CHR 0x0D, CHR 0x0A]"

text \<open>\<^verbatim>\<open>strlen\<close>: the number of bytes before the first NUL of a buffer.\<close>

definition strlen :: "string \<Rightarrow> nat" where
  "strlen buf = length (takeWhile (\<lambda>c. c \<noteq> CHR 0x00) buf)"

fun digits :: "nat \<Rightarrow> string" where
  "digits n =
     (if n < 10 then [''0123456789'' ! n]
      else digits (n div 10) @ [''0123456789'' ! (n mod 10)])"

declare digits.simps [simp del]

text \<open>\<^verbatim>\<open>%d\<close>: a signed decimal number.\<close>

definition printf_d :: "int \<Rightarrow> string" where
  "printf_d i = (if i < 0 then ''-'' @ digits (nat (- i)) else digits (nat i))"

text \<open>
  \<^verbatim>\<open>% 5d\<close>: a signed decimal number, a blank in the place of the plus sign, padded
  with blanks on the left to five columns.
\<close>

definition printf_space_5d :: "int \<Rightarrow> string" where
  "printf_space_5d i =
     (let s = (if i < 0 then ''-'' @ digits (nat (- i)) else '' '' @ digits (nat i))
      in replicate (5 - length s) (CHR '' '') @ s)"

text \<open>\<^verbatim>\<open>%02d\<close>, as \<^verbatim>\<open>strftime\<close> writes a month and a day of the month.\<close>

definition printf_02d :: "nat \<Rightarrow> string" where
  "printf_02d n = (if n < 10 then ''0'' @ digits n else digits n)"

text \<open>
  \<^verbatim>\<open>gmtime_r\<close>: the calendar date (year, month, day) in UTC of a number of seconds
  since 1970-01-01, in the proleptic Gregorian calendar. The function belongs to the C
  library; the model computes the date from the day number era by era (400 years,
  146097 days), the year counted from March.
\<close>

definition gmtime_ymd :: "int \<Rightarrow> int \<times> nat \<times> nat" where
  "gmtime_ymd dt =
     (let z = dt div 86400 + 719468;
          era = z div 146097;
          doe = z - era * 146097;
          yoe = (doe - doe div 1460 + doe div 36524 - doe div 146096) div 365;
          doy = doe - (365 * yoe + yoe div 4 - yoe div 100);
          mp = (5 * doy + 2) div 153;
          d = doy - (153 * mp + 2) div 5 + 1;
          m = (if mp < 10 then mp + 3 else mp - 9);
          y = yoe + era * 400 + (if m \<le> 2 then 1 else 0)
      in (y, nat m, nat d))"

text \<open>\<^verbatim>\<open>strftime (t, 16, "%Y/%m/%d", &dtm)\<close> after \<^verbatim>\<open>gmtime_r (&dt, &dtm)\<close>.\<close>

definition strftime_Ymd :: "int \<Rightarrow> string" where
  "strftime_Ymd dt =
     (case gmtime_ymd dt of (y, m, d) \<Rightarrow> printf_d y @ ''/'' @ printf_02d m @ ''/'' @ printf_02d d)"

text \<open>\<^verbatim>\<open>g_ascii_tolower\<close> and \<^verbatim>\<open>g_ascii_strcasecmp\<close> of GLib.\<close>

definition g_ascii_tolower :: "char \<Rightarrow> char" where
  "g_ascii_tolower c =
     (let n = (of_char c :: nat) in if 65 \<le> n \<and> n \<le> 90 then char_of (n + 32) else c)"

fun g_ascii_strcasecmp :: "string \<Rightarrow> string \<Rightarrow> int" where
  "g_ascii_strcasecmp [] [] = 0"
| "g_ascii_strcasecmp [] (y # ys) = - int (of_char y)"
| "g_ascii_strcasecmp (x # xs) [] = int (of_char x)"
| "g_ascii_strcasecmp (x # xs) (y # ys) =
     (let c1 = g_ascii_tolower x; c2 = g_ascii_tolower y
      in if c1 \<noteq> c2 then int (of_char c1) - int (of_char c2)
         else g_ascii_strcasecmp xs ys)"

subsection \<open>The response formats\<close>

definition HKP_ERROR_RESPONSE :: "string \<Rightarrow> string" where
  "HKP_ERROR_RESPONSE details =
     ''<title>Public Key Server -- Error</title><p>'' @ CRLF @
     ''<h1>Public Key Server -- Error</h1><p>'' @ CRLF @
     details"

definition HKP_VINDEX_PREFIX :: "string \<Rightarrow> string \<Rightarrow> string" where
  "HKP_VINDEX_PREFIX t1 t2 =
     ''<title>Public Key Server -- Verbose Index ``'' @ t1 @ [CHR 0x27, CHR 0x27] @ ''</title><p>'' @
     ''<h1>Public Key Server -- Verbose Index ``'' @ t2 @ [CHR 0x27, CHR 0x27] @ ''</h1><p>'' @
     ''<pre>''"

definition HKP_INDEX_PREFIX :: "string \<Rightarrow> string \<Rightarrow> string" where
  "HKP_INDEX_PREFIX t1 t2 =
     ''<title>Public Key Server -- Verbose Index ``'' @ t1 @ [CHR 0x27, CHR 0x27] @ ''</title><p>'' @
     ''<h1>Public Key Server -- Verbose Index ``'' @ t2 @ [CHR 0x27, CHR 0x27] @ ''</h1><p>'' @
     ''<pre>Type bits /keyID    Date       User ID'' @ CRLF"

definition HKP_INDEX_SUFFIX :: string where
  "HKP_INDEX_SUFFIX = ''</pre>''"

definition HKP_INDEX_REVOKED :: string where
  "HKP_INDEX_REVOKED = ''*** KEY REVOKED ***''"

definition HKP_INDEX_UIDNAME :: "string \<Rightarrow> string" where
  "HKP_INDEX_UIDNAME name = name @ '' ''"

definition HKP_INDEX_UIDEMAIL :: "string \<Rightarrow> string \<Rightarrow> string \<Rightarrow> string" where
  \<open>HKP_INDEX_UIDEMAIL name keyid email =
     name @ '' &lt;<a href="/pks/lookup?op=index&search=0x'' @ keyid @ ''">'' @ email @
     ''</a>&gt;''\<close>

definition HKP_INDEX_KEY_LINE ::
  "int \<Rightarrow> string \<Rightarrow> string \<Rightarrow> string \<Rightarrow> string \<Rightarrow> string \<Rightarrow> string" where
  \<open>HKP_INDEX_KEY_LINE bits algo fprlink fprtext date uid =
     ''pub '' @ printf_space_5d bits @ algo @ ''/<a href="/pks/lookup?op=get&search=0x'' @
     fprlink @ ''">'' @ fprtext @ ''</a> '' @ date @ '' '' @ uid @ CRLF\<close>

definition HKP_INDEX_FPR_LINE :: "string \<Rightarrow> string" where
  "HKP_INDEX_FPR_LINE t = ''     Key fingerprint = '' @ t @ CRLF"

definition HKP_INDEX_UID_LINE :: "string \<Rightarrow> string" where
  "HKP_INDEX_UID_LINE uid = ''                               '' @ uid @ CRLF"

definition HKP_INDEX_SIG_LINE :: "string \<Rightarrow> string \<Rightarrow> string \<Rightarrow> string" where
  \<open>HKP_INDEX_SIG_LINE idlink idtext t =
     ''sig        <a href="/pks/lookup?op=get&search=0x'' @ idlink @ ''">'' @ idtext @
     ''</a>             '' @ t @ CRLF\<close>

definition HKP_GET_PREFIX :: "string \<Rightarrow> string \<Rightarrow> string" where
  "HKP_GET_PREFIX t1 t2 =
     ''<title>Public Key Server -- Get ``'' @ t1 @ [CHR 0x27, CHR 0x27] @ ''</title><p>'' @ CRLF @
     ''<h1>Public Key Server -- Get ``'' @ t2 @ [CHR 0x27, CHR 0x27] @ ''</h1><p>'' @ CRLF @
     ''<pre>'' @ CRLF"

definition HKP_GET_SUFFIX :: string where
  "HKP_GET_SUFFIX = CRLF @ ''</pre>''"

definition HKP_ADD_RESPONSE :: string where
  "HKP_ADD_RESPONSE =
     ''<title>Public Key Server -- Error</title><p>'' @ CRLF @
     ''<h1>Public Key Server -- Error</h1><p>'' @ CRLF @
     ''Adding of keys not allowed''"

definition HKP_NOTFOUND_RESPONSE :: string where
  "HKP_NOTFOUND_RESPONSE =
     ''<HEAD><TITLE>404 Not Found</TITLE></HEAD><BODY>unknown uri in pks request</BODY>'' @ CRLF"

subsection \<open>Key records of the keystore (GPGME)\<close>

datatype gpgme_pubkey_algo =
    GPGME_PK_RSA | GPGME_PK_RSA_E | GPGME_PK_RSA_S
  | GPGME_PK_ELG | GPGME_PK_ELG_E | GPGME_PK_DSA
  | GPGME_PK_OTHER nat

text \<open>
  \<open>sk_length\<close> is the field \<^verbatim>\<open>unsigned int length\<close>, which the key line prints with
  \<^verbatim>\<open>%d\<close>: the printed number is the signed reading of the 32 bits.
\<close>

record gpgme_subkey =
  pubkey_algo :: gpgme_pubkey_algo
  sk_length :: "32 word"
  fpr :: string
  timestamp :: int

record gpgme_key_sig =
  sig_name :: "string option"
  sig_email :: "string option"
  sig_keyid :: string

record gpgme_user_id =
  uid_name :: "string option"
  uid_email :: "string option"
  signatures :: "gpgme_key_sig list"

text \<open>The linked lists \<^verbatim>\<open>key->subkeys\<close> and \<^verbatim>\<open>key->uids\<close> are lists; \<^verbatim>\<open>NULL\<close> is the empty list.\<close>

record gpgme_key =
  revoked :: bool
  subkeys :: "gpgme_subkey list"
  uids :: "gpgme_user_id list"

subsection \<open>Rendering\<close>

definition last_x :: "string \<Rightarrow> nat \<Rightarrow> string" where
  "last_x str len = (let l = length str in if l > len then drop (l - len) str else str)"

fun escape_html :: "string \<Rightarrow> string" where
  "escape_html [] = []"
| "escape_html (c # str) =
     (if c = CHR ''<'' then ''&lt;''
      else if c = CHR ''>'' then ''&gt;''
      else if c = CHR ''&'' then ''&amp;''
      else if c = CHR 0x22 then ''&quot;''
      else [c]) @ escape_html str"

text \<open>The loop of \<^verbatim>\<open>format_key_fingerprint\<close> over the index \<open>i\<close>, the output so far in \<open>acc\<close>.\<close>

fun format_fpr_loop :: "string \<Rightarrow> nat \<Rightarrow> string \<Rightarrow> string" where
  "format_fpr_loop [] i acc = acc"
| "format_fpr_loop (c # raw) i acc =
     format_fpr_loop raw (Suc i)
       ((if i > 0 \<and> i mod 4 = 0 then acc @ '' '' else acc) @ [c])"

text \<open>\<^verbatim>\<open>format_key_fingerprint\<close>: \<open>None\<close> is the \<^verbatim>\<open>NULL\<close> of a key without subkeys.\<close>

definition format_key_fingerprint :: "gpgme_key \<Rightarrow> string option" where
  "format_key_fingerprint key =
     (case subkeys key of
        [] \<Rightarrow> None
      | sk # _ \<Rightarrow> Some (format_fpr_loop (fpr sk) 0 []))"

definition format_key_uid :: "string option \<Rightarrow> string \<Rightarrow> string option \<Rightarrow> string" where
  "format_key_uid name0 keyid email0 =
     (let name = (if name0 = Some [] then None else name0);
          email = (if email0 = Some [] then None else email0)
      in case (name, email) of
           (Some n, Some e) \<Rightarrow> HKP_INDEX_UIDEMAIL n (last_x keyid 8) e
         | (Some n, None) \<Rightarrow> HKP_INDEX_UIDNAME n
         | (None, _) \<Rightarrow> [])"

definition get_key_algo_letter :: "gpgme_key \<Rightarrow> string" where
  "get_key_algo_letter key =
     (case subkeys key of
        [] \<Rightarrow> ''?''
      | sk # _ \<Rightarrow>
          (case pubkey_algo sk of
             GPGME_PK_RSA \<Rightarrow> ''R''
           | GPGME_PK_RSA_E \<Rightarrow> ''R''
           | GPGME_PK_RSA_S \<Rightarrow> ''R''
           | GPGME_PK_ELG \<Rightarrow> ''E''
           | GPGME_PK_ELG_E \<Rightarrow> ''E''
           | GPGME_PK_DSA \<Rightarrow> ''D''
           | GPGME_PK_OTHER _ \<Rightarrow> ''?''))"

text \<open>The inner loop of \<^verbatim>\<open>append_key_info\<close>: one signature line per signature of a user id.\<close>

fun append_sigs :: "string \<Rightarrow> gpgme_key_sig list \<Rightarrow> string" where
  "append_sigs response [] = response"
| "append_sigs response (sg # sigs) =
     append_sigs
       (response @
        HKP_INDEX_SIG_LINE (last_x (sig_keyid sg) 8) (last_x (sig_keyid sg) 8)
          (format_key_uid (sig_name sg) (sig_keyid sg) (sig_email sg)))
       sigs"

text \<open>
  The \<^verbatim>\<open>for\<close> loop of \<^verbatim>\<open>append_key_info\<close>. Its state is the rest of the user id list
  (the pointer \<^verbatim>\<open>uid\<close>), the flag \<^verbatim>\<open>first\<close> and the response. The primary subkey is
  \<open>sk\<close>. The pointer advances only under \<^verbatim>\<open>!first || !key->revoked\<close>.
\<close>

function append_uids ::
  "gpgme_key \<Rightarrow> gpgme_subkey \<Rightarrow> bool \<Rightarrow> bool \<Rightarrow> gpgme_user_id list \<Rightarrow> bool \<Rightarrow> string \<Rightarrow> string"
where
  "append_uids key sk verbose fingerprints [] first response = response"
| "append_uids key sk verbose fingerprints (uid # rest) first response =
     (let uidpart =
            (if revoked key then HKP_INDEX_REVOKED
             else format_key_uid (uid_name uid) (fpr sk) (uid_email uid));
          response1 =
            (if first then
               (let r = response @
                      HKP_INDEX_KEY_LINE (sint (sk_length sk)) (get_key_algo_letter key)
                        (last_x (fpr sk) 8) (last_x (fpr sk) 8)
                        (strftime_Ymd (timestamp sk)) uidpart
                in if fingerprints
                   then r @ HKP_INDEX_FPR_LINE (case format_key_fingerprint key of
                                                   None \<Rightarrow> ''(null)'' | Some t \<Rightarrow> t)
                   else r)
             else response @ HKP_INDEX_UID_LINE uidpart)
      in if \<not> first \<or> \<not> revoked key then
           append_uids key sk verbose fingerprints rest False
             (if verbose then append_sigs response1 (signatures uid) else response1)
         else append_uids key sk verbose fingerprints (uid # rest) False response1)"
  by pat_completeness auto
termination
  by (relation "measure (\<lambda>(key, sk, verbose, fingerprints, us, first, response).
        2 * length us + (if first then 1 else 0))") auto

text \<open>
  \<^verbatim>\<open>append_key_info\<close>: the two \<^verbatim>\<open>g_return_if_fail\<close> guards leave the response as it is
  for a key without subkeys or without user ids.
\<close>

definition append_key_info :: "string \<Rightarrow> gpgme_key \<Rightarrow> bool \<Rightarrow> bool \<Rightarrow> string" where
  "append_key_info response key verbose fingerprints =
     (case subkeys key of
        [] \<Rightarrow> response
      | sk # _ \<Rightarrow>
          (if uids key = [] then response
           else append_uids key sk verbose fingerprints (uids key) True response))"

subsection \<open>Requests, responses and the keystore session\<close>

text \<open>
  The query of a request is the \<^verbatim>\<open>GHashTable\<close> that libsoup hands to a handler: the
  list of its entries. \<^verbatim>\<open>g_hash_table_lookup\<close> finds the value of a key,
  \<^verbatim>\<open>g_hash_table_size\<close> counts the keys.
\<close>

type_synonym GHashTable = "(string \<times> string) list"

definition g_hash_table_lookup :: "GHashTable \<Rightarrow> string \<Rightarrow> string option" where
  "g_hash_table_lookup args k = map_of args k"

definition g_hash_table_size :: "GHashTable \<Rightarrow> nat" where
  "g_hash_table_size args = length (remdups (map fst args))"

text \<open>
  The part of a \<^verbatim>\<open>SoupMessage\<close> that the handlers read and write: the request method,
  the response status, the response headers, and the response body with its content
  type (\<open>None\<close> while no body is set).
\<close>

record SoupMessage =
  request_method :: string
  status_code :: nat
  response_headers :: "(string \<times> string) list"
  response_content_type :: "string option"
  response_body :: "string option"

definition SOUP_METHOD_GET :: string where "SOUP_METHOD_GET = ''GET''"
definition SOUP_STATUS_OK :: nat where "SOUP_STATUS_OK = 200"
definition SOUP_STATUS_NOT_FOUND :: nat where "SOUP_STATUS_NOT_FOUND = 404"
definition SOUP_STATUS_METHOD_NOT_ALLOWED :: nat where "SOUP_STATUS_METHOD_NOT_ALLOWED = 405"
definition SOUP_STATUS_INTERNAL_SERVER_ERROR :: nat where "SOUP_STATUS_INTERNAL_SERVER_ERROR = 500"

definition soup_message_headers_append :: "SoupMessage \<Rightarrow> string \<Rightarrow> string \<Rightarrow> SoupMessage" where
  "soup_message_headers_append msg name v =
     msg\<lparr>response_headers := response_headers msg @ [(name, v)]\<rparr>"

definition soup_message_set_status :: "SoupMessage \<Rightarrow> nat \<Rightarrow> SoupMessage" where
  "soup_message_set_status msg code = msg\<lparr>status_code := code\<rparr>"

text \<open>\<^verbatim>\<open>soup_message_set_response\<close> takes the first \<open>len\<close> bytes of the buffer as the body.\<close>

definition soup_message_set_response :: "SoupMessage \<Rightarrow> string \<Rightarrow> string \<Rightarrow> nat \<Rightarrow> SoupMessage" where
  "soup_message_set_response msg ctype resp len =
     msg\<lparr>response_content_type := Some ctype, response_body := Some (take len resp)\<rparr>"

text \<open>
  The keystore session \<^verbatim>\<open>gpgme_ctx\<close>, as the handlers use it. An error code
  (\<^verbatim>\<open>gpgme_error_t\<close>) is a number, 0 for success.
  \<^item> \<open>op_keylist_start sigs pattern\<close>: the code of \<^verbatim>\<open>gpgme_op_keylist_start\<close>, in the
    key list mode set before it (\<open>sigs\<close>: with \<^verbatim>\<open>GPGME_KEYLIST_MODE_SIGS\<close>);
  \<^item> \<open>op_keylist_next sigs pattern\<close>: the keys that the calls of
    \<^verbatim>\<open>gpgme_op_keylist_next\<close> return with code 0, in order, up to the first other code;
  \<^item> \<open>data_new\<close>: the code of \<^verbatim>\<open>gpgme_data_new\<close>;
  \<^item> \<open>op_export pattern\<close>: the code of \<^verbatim>\<open>gpgme_op_export\<close> with armor set;
  \<^item> \<open>data_release_and_get_mem pattern\<close>: the buffer of the exported data, \<open>None\<close> for
    \<^verbatim>\<open>NULL\<close>; its length is the \<^verbatim>\<open>len\<close> the call stores.
\<close>

record keystore =
  op_keylist_start :: "bool \<Rightarrow> string \<Rightarrow> nat"
  op_keylist_next :: "bool \<Rightarrow> string \<Rightarrow> gpgme_key list"
  data_new :: nat
  op_export :: "string \<Rightarrow> nat"
  data_release_and_get_mem :: "string \<Rightarrow> string option"

subsection \<open>The handlers\<close>

text \<open>
  A handler returns the message it has written. \<^verbatim>\<open>lookup_handle_error\<close> and the two
  lookup operations also return the status code for the caller to set. The warnings
  that the handlers log (\<^verbatim>\<open>g_warning\<close>) are not part of a response and are left out.
\<close>

definition lookup_handle_error :: "SoupMessage \<Rightarrow> string \<Rightarrow> nat \<Rightarrow> nat \<times> SoupMessage" where
  "lookup_handle_error msg details gerr =
     (let t = HKP_ERROR_RESPONSE details
      in (SOUP_STATUS_OK, soup_message_set_response msg ''text/html'' t (strlen t)))"

text \<open>
  The \<^verbatim>\<open>while\<close> loop of \<^verbatim>\<open>lookup_handle_index\<close> over the keys of the listing; its state
  is the response and the flag \<^verbatim>\<open>found\<close>. \<^verbatim>\<open>g_string_printf\<close> replaces the response by
  the page header at the first key.
\<close>

fun keylist_loop ::
  "bool \<Rightarrow> bool \<Rightarrow> string \<Rightarrow> gpgme_key list \<Rightarrow> string \<Rightarrow> bool \<Rightarrow> string \<times> bool" where
  "keylist_loop verbose fingerprints search [] response found = (response, found)"
| "keylist_loop verbose fingerprints search (key # keys) response found =
     (let response1 =
            (if \<not> found then
               (let t = escape_html search
                in if verbose then HKP_VINDEX_PREFIX t t else HKP_INDEX_PREFIX t t)
             else response)
      in keylist_loop verbose fingerprints search keys
           (append_key_info response1 key verbose fingerprints) True)"

definition lookup_handle_index ::
  "keystore \<Rightarrow> SoupMessage \<Rightarrow> GHashTable \<Rightarrow> bool \<Rightarrow> nat \<times> SoupMessage" where
  "lookup_handle_index ks msg args verbose =
     (let fingerprints =
            (case g_hash_table_lookup args ''fingerprint'' of
               None \<Rightarrow> False
             | Some t \<Rightarrow> g_ascii_strcasecmp t ''on'' = 0)
      in case g_hash_table_lookup args ''search'' of
           None \<Rightarrow>
             lookup_handle_error msg ''pks request did not include a <b>search</b> property'' 0
         | Some search \<Rightarrow>
             if search = [] then
               lookup_handle_error msg ''pks request did not include a <b>search</b> property'' 0
             else
               (let gerr = op_keylist_start ks verbose search
                in if gerr \<noteq> 0 then lookup_handle_error msg ''Error retrieving key(s)'' gerr
                   else
                     (case keylist_loop verbose fingerprints search
                             (op_keylist_next ks verbose search) [] False of
                        (response, found) \<Rightarrow>
                          if found then
                            (let resp = response @ HKP_INDEX_SUFFIX
                             in (SOUP_STATUS_OK,
                                 soup_message_set_response msg ''text/html'' resp (strlen resp)))
                          else lookup_handle_error msg ''No matching keys in database'' 0)))"

definition lookup_handle_get :: "keystore \<Rightarrow> SoupMessage \<Rightarrow> GHashTable \<Rightarrow> nat \<times> SoupMessage" where
  "lookup_handle_get ks msg args =
     (case g_hash_table_lookup args ''search'' of
        None \<Rightarrow>
          lookup_handle_error msg ''pks request did not include a <b>search</b> property'' 0
      | Some search \<Rightarrow>
          if search = [] then
            lookup_handle_error msg ''pks request did not include a <b>search</b> property'' 0
          else if data_new ks \<noteq> 0 then
            lookup_handle_error msg ''Internal error'' (data_new ks)
          else if op_export ks search \<noteq> 0 then
            lookup_handle_error msg ''Error retrieving key(s)'' (op_export ks search)
          else
            (case data_release_and_get_mem ks search of
               None \<Rightarrow> lookup_handle_error msg ''No matching key in database'' 0
             | Some key \<Rightarrow>
                 (let len = length key
                  in if len = 0 then lookup_handle_error msg ''No matching key in database'' 0
                     else
                       (let t = escape_html search;
                            response = HKP_GET_PREFIX t t @ take len key @ HKP_GET_SUFFIX
                        in (SOUP_STATUS_OK,
                            soup_message_set_response msg ''text/html'' response
                              (strlen response))))))"

text \<open>\<^verbatim>\<open>lookup_callback\<close>: \<open>args\<close> is \<open>None\<close> for the \<^verbatim>\<open>NULL\<close> of a request without a query.\<close>

definition lookup_callback :: "keystore \<Rightarrow> SoupMessage \<Rightarrow> GHashTable option \<Rightarrow> SoupMessage" where
  "lookup_callback ks msg0 args0 =
     (let msg = soup_message_headers_append msg0 ''Connection'' ''close''
      in if request_method msg \<noteq> SOUP_METHOD_GET then
           soup_message_set_status msg SOUP_STATUS_METHOD_NOT_ALLOWED
         else
           (case (case args0 of None \<Rightarrow> None
                  | Some a \<Rightarrow> if g_hash_table_size a = 0 then None else Some a) of
              None \<Rightarrow>
                (case lookup_handle_error msg ''pks request had no query string'' 0 of
                   (code, msg1) \<Rightarrow> soup_message_set_status msg1 SOUP_STATUS_METHOD_NOT_ALLOWED)
            | Some args \<Rightarrow>
                (case
                   (case g_hash_table_lookup args ''op'' of
                      None \<Rightarrow>
                        lookup_handle_error msg
                          ''pks request did not include an <b>op</b> property'' 0
                    | Some t \<Rightarrow>
                        if t = [] then
                          lookup_handle_error msg
                            ''pks request did not include an <b>op</b> property'' 0
                        else if g_ascii_strcasecmp t ''index'' = 0 then
                          lookup_handle_index ks msg args False
                        else if g_ascii_strcasecmp t ''vindex'' = 0 then
                          lookup_handle_index ks msg args True
                        else if g_ascii_strcasecmp t ''get'' = 0 then
                          lookup_handle_get ks msg args
                        else
                          lookup_handle_error msg
                            ''pks request had an invalid <b>op</b> property'' 0)
                 of (code, msg1) \<Rightarrow> soup_message_set_status msg1 code)))"

definition add_callback :: "SoupMessage \<Rightarrow> SoupMessage" where
  "add_callback msg =
     soup_message_headers_append
       (soup_message_set_status
          (soup_message_set_response msg ''text/html'' HKP_ADD_RESPONSE (strlen HKP_ADD_RESPONSE))
          SOUP_STATUS_METHOD_NOT_ALLOWED)
       ''Connection'' ''close''"

definition default_callback :: "SoupMessage \<Rightarrow> SoupMessage" where
  "default_callback msg =
     soup_message_headers_append
       (soup_message_set_status
          (soup_message_set_response msg ''text/html'' HKP_NOTFOUND_RESPONSE
             (strlen HKP_NOTFOUND_RESPONSE))
          SOUP_STATUS_NOT_FOUND)
       ''Connection'' ''close''"

section \<open>Sharing and DNS-SD publishing (src/unnamed/part_000, the sharing module)\<close>

subsection \<open>The module state and the outside world\<close>

text \<open>
  The handles of libsoup, GPGME and Avahi objects are numbers. The state holds the
  static variables of the two modules and, in \<open>trace\<close>, the calls made so far that act
  on the outside world, oldest first.
\<close>

type_synonym handle = nat

datatype AvahiClientState =
    AVAHI_CLIENT_S_REGISTERING | AVAHI_CLIENT_S_RUNNING | AVAHI_CLIENT_S_COLLISION
  | AVAHI_CLIENT_FAILURE | AVAHI_CLIENT_CONNECTING

datatype AvahiEntryGroupState =
    AVAHI_ENTRY_GROUP_UNCOMMITED | AVAHI_ENTRY_GROUP_REGISTERING
  | AVAHI_ENTRY_GROUP_ESTABLISHED | AVAHI_ENTRY_GROUP_COLLISION | AVAHI_ENTRY_GROUP_FAILURE

datatype event =
    G_warning string
  | Show_error string string
  | Avahi_entry_group_free handle
  | Avahi_client_free handle
  | Avahi_entry_group_reset handle
  | Avahi_entry_group_new handle
  | Avahi_entry_group_add_service handle string string nat
  | Avahi_entry_group_commit handle
  | Avahi_glib_poll_new
  | Avahi_client_new "handle option"
  | Sleep nat
  | G_object_unref handle
  | Gpgme_release handle
  | G_critical string
  | Gpgme_new
  | Soup_server_new nat
  | Soup_server_run_async handle

text \<open>\<open>share_alternate\<close> is a C \<^verbatim>\<open>int\<close>: 32 bits, read as a signed number.\<close>

record daemon =
  soup_server :: "handle option"
  gpgme_ctx :: "handle option"
  avahi_group :: "handle option"
  avahi_client :: "handle option"
  avahi_poll :: "handle option"
  share_name :: "string option"
  share_alternate :: "32 word"
  trace :: "event list"

text \<open>
  What the libraries answer. Each field stands for the library function of its name
  and gives the value that the call returns; a negative number of Avahi is an error.
  \<open>avahi_client_new\<close> takes the poll object, \<open>avahi_entry_group_new\<close> the client.
\<close>

record world =
  g_get_real_name :: "string option"
  g_get_user_name :: string
  g_utf8_validate :: "string \<Rightarrow> bool"
  g_utf8_strup :: "string \<Rightarrow> string"
  soup_server_get_port :: "handle \<Rightarrow> nat"
  avahi_glib_poll_new :: "handle option"
  avahi_client_new :: "handle option \<Rightarrow> handle option"
  avahi_client_errno :: "handle \<Rightarrow> int"
  avahi_entry_group_new :: "handle \<Rightarrow> handle option"
  avahi_entry_group_add_service :: "handle \<Rightarrow> string \<Rightarrow> string \<Rightarrow> nat \<Rightarrow> int"
  avahi_entry_group_commit :: "handle \<Rightarrow> int"

definition HKP_SERVICE_TYPE :: string where
  "HKP_SERVICE_TYPE = ''_pgpkey-hkp._tcp.''"

text \<open>The error code of a client that lost its daemon (avahi-common/error.h).\<close>

definition AVAHI_ERR_DISCONNECTED :: int where
  "AVAHI_ERR_DISCONNECTED = - 23"

definition emit :: "event \<Rightarrow> daemon \<Rightarrow> daemon" where
  "emit e s = s\<lparr>trace := trace s @ [e]\<rparr>"

subsection \<open>The HKP server's handles\<close>

definition seahorse_hkp_server_stop :: "daemon \<Rightarrow> daemon" where
  "seahorse_hkp_server_stop s =
     (let s1 = (case soup_server s of
                  None \<Rightarrow> s
                | Some srv \<Rightarrow> (emit (G_object_unref srv) s)\<lparr>soup_server := None\<rparr>)
      in case gpgme_ctx s1 of
           None \<Rightarrow> s1
         | Some ctx \<Rightarrow> (emit (Gpgme_release ctx) s1)\<lparr>gpgme_ctx := None\<rparr>)"

text \<open>
  What GPGME and libsoup answer to \<^verbatim>\<open>seahorse_hkp_server_start\<close>: whether
  \<^verbatim>\<open>gpgme_check_version\<close> returns a version, the codes of
  \<^verbatim>\<open>gpgme_engine_check_version\<close>, \<^verbatim>\<open>gpgme_new\<close> and \<^verbatim>\<open>gpgme_set_protocol\<close>, the context
  that a successful \<^verbatim>\<open>gpgme_new\<close> stores, and the server that \<^verbatim>\<open>soup_server_new\<close> returns
  for a port (\<open>None\<close> when the socket cannot be bound).
\<close>

record server_libs =
  gpgme_check_version :: bool
  gpgme_engine_check_version :: nat
  gpgme_new_code :: nat
  gpgme_new_ctx :: handle
  gpgme_set_protocol :: nat
  soup_server_new :: "nat \<Rightarrow> handle option"

definition HKP_FIXED_PORT :: nat where "HKP_FIXED_PORT = 0"
definition SOUP_ADDRESS_ANY_PORT :: nat where "SOUP_ADDRESS_ANY_PORT = 0"

text \<open>
  \<^verbatim>\<open>seahorse_hkp_server_start\<close>, with the value it returns. A failed
  \<^verbatim>\<open>g_return_val_if_fail\<close> logs a critical message and returns. The keystore session is
  made first and stays in \<^verbatim>\<open>gpgme_ctx\<close> when a later step fails.
\<close>

definition seahorse_hkp_server_start :: "server_libs \<Rightarrow> daemon \<Rightarrow> bool \<times> daemon" where
  "seahorse_hkp_server_start l s =
     (let port = (if HKP_FIXED_PORT \<noteq> 0 then HKP_FIXED_PORT else SOUP_ADDRESS_ANY_PORT);
          r = (case gpgme_ctx s of
                 Some ctx \<Rightarrow> (True, s)
               | None \<Rightarrow>
                   if \<not> gpgme_check_version l then
                     (False, emit (G_critical ''should not be reached'') s)
                   else if gpgme_engine_check_version l \<noteq> 0 then
                     (False, emit (G_critical ''gerr == 0'') s)
                   else if gpgme_new_code l \<noteq> 0 then
                     (False, emit (G_warning ''couldn't initialize gpgme'') (emit Gpgme_new s))
                   else
                     (let s1 = (emit Gpgme_new s)\<lparr>gpgme_ctx := Some (gpgme_new_ctx l)\<rparr>
                      in if gpgme_set_protocol l \<noteq> 0
                         then (False, emit (G_critical ''gerr == 0'') s1)
                         else (True, s1)))
      in case r of
           (False, s2) \<Rightarrow> (False, s2)
         | (True, s2) \<Rightarrow>
             if soup_server s2 \<noteq> None then
               (False, emit (G_critical ''soup_server == NULL'') s2)
             else
               (let s3 = (emit (Soup_server_new port) s2)\<lparr>soup_server := soup_server_new l port\<rparr>
                in case soup_server s3 of
                     None \<Rightarrow> (False, s3)
                   | Some srv \<Rightarrow> (True, emit (Soup_server_run_async srv) s3)))"

definition seahorse_hkp_server_is_running :: "daemon \<Rightarrow> bool" where
  "seahorse_hkp_server_is_running s = (soup_server s \<noteq> None)"

definition seahorse_hkp_server_get_port :: "world \<Rightarrow> daemon \<Rightarrow> nat" where
  "seahorse_hkp_server_get_port w s =
     (case soup_server s of None \<Rightarrow> 0 | Some srv \<Rightarrow> soup_server_get_port w srv)"

subsection \<open>Helpers\<close>

definition g_ascii_toupper :: "char \<Rightarrow> char" where
  "g_ascii_toupper c =
     (let n = (of_char c :: nat) in if 97 \<le> n \<and> n \<le> 122 then char_of (n - 32) else c)"

text \<open>
  \<^verbatim>\<open>g_utf8_find_next_char (orig, NULL)\<close> steps over the first byte and the
  continuation bytes (\<^verbatim>\<open>10xxxxxx\<close>) after it; the result is never \<^verbatim>\<open>NULL\<close>. The
  function below gives the bytes stepped over and the rest. (On the empty string the C
  function steps over the terminating NUL; the model gives two empty strings. A login
  name is not empty.)
\<close>

definition utf8_first_char :: "string \<Rightarrow> string \<times> string" where
  "utf8_first_char orig =
     (case orig of
        [] \<Rightarrow> ([], [])
      | c # cs \<Rightarrow>
          (let cont = (\<lambda>b. 128 \<le> (of_char b :: nat) \<and> (of_char b :: nat) < 192)
           in (c # takeWhile cont cs, dropWhile cont cs)))"

definition string_up_first :: "world \<Rightarrow> string \<Rightarrow> string" where
  "string_up_first w orig =
     (if g_utf8_validate w orig then
        (case utf8_first_char orig of (t1, t) \<Rightarrow> g_utf8_strup w t1 @ t)
      else
        (case orig of [] \<Rightarrow> [] | c # cs \<Rightarrow> g_ascii_toupper c # cs))"

subsection \<open>Publishing\<close>

definition stop_publishing :: "bool \<Rightarrow> daemon \<Rightarrow> daemon" where
  "stop_publishing errmsg s =
     (let s1 = s\<lparr>share_name := None\<rparr>;
          s2 = (case avahi_group s1 of
                  None \<Rightarrow> s1
                | Some g \<Rightarrow> emit (Avahi_entry_group_free g) s1)\<lparr>avahi_group := None\<rparr>;
          s3 = (case avahi_client s2 of
                  None \<Rightarrow> s2
                | Some c \<Rightarrow> emit (Avahi_client_free c) s2)\<lparr>avahi_client := None\<rparr>
      in if errmsg then
           emit (Show_error ''Couldn't share keys''
                   ''Can't publish discovery information on the network.'') s3
         else s3)"

text \<open>
  The name without the number of \<^verbatim>\<open>calc_share_name\<close>; \<^verbatim>\<open>_()\<close> is taken to return
  the untranslated format.
\<close>

definition base_share_name :: "world \<Rightarrow> string" where
  "base_share_name w =
     (let user_name =
            (case g_get_real_name w of
               None \<Rightarrow> string_up_first w (g_get_user_name w)
             | Some n \<Rightarrow>
                 if n = ''Unknown'' then string_up_first w (g_get_user_name w) else n)
      in user_name @ [CHR 0x27] @ ''s encryption keys'')"

definition calc_share_name :: "world \<Rightarrow> daemon \<Rightarrow> daemon" where
  "calc_share_name w s =
     (let name = base_share_name w
      in if share_alternate s \<noteq> 0
         then s\<lparr>share_name := Some (name @ '' #'' @ printf_d (sint (share_alternate s)))\<rparr>
         else s\<lparr>share_name := Some name\<rparr>)"

text \<open>
  \<^verbatim>\<open>add_service\<close> passes \<^verbatim>\<open>avahi_group\<close> and \<^verbatim>\<open>share_name\<close> to Avahi, which asserts
  that neither is \<^verbatim>\<open>NULL\<close>: \<open>None\<close> is the aborted process.
\<close>

definition add_service :: "world \<Rightarrow> daemon \<Rightarrow> daemon option" where
  "add_service w s =
     (case (avahi_group s, share_name s) of
        (Some g, Some name) \<Rightarrow>
          (let port = seahorse_hkp_server_get_port w s;
               r = avahi_entry_group_add_service w g name HKP_SERVICE_TYPE port;
               s1 = emit (Avahi_entry_group_add_service g name HKP_SERVICE_TYPE port) s;
               r2 = (if r \<ge> 0 then avahi_entry_group_commit w g else r);
               s2 = (if r \<ge> 0 then emit (Avahi_entry_group_commit g) s1 else s1)
           in if r2 < 0
              then Some (stop_publishing True
                     (emit (G_warning ''failed to register _pgpkey-hkp._tcp service'') s2))
              else Some s2)
      | _ \<Rightarrow> None)"

text \<open>\<^verbatim>\<open>services_callback\<close>; a failed \<^verbatim>\<open>g_assert\<close> is \<open>None\<close>.\<close>

definition services_callback ::
  "world \<Rightarrow> handle \<Rightarrow> AvahiEntryGroupState \<Rightarrow> daemon \<Rightarrow> daemon option" where
  "services_callback w grp state s =
     (if \<not> (avahi_group s = None \<or> avahi_group s = Some grp) then None
      else case state of
        AVAHI_ENTRY_GROUP_COLLISION \<Rightarrow>
          (let s1 = calc_share_name w (s\<lparr>share_alternate := share_alternate s + 1\<rparr>);
               s2 = emit (G_warning (''naming collision trying new name: '' @
                            (case share_name s1 of None \<Rightarrow> ''(null)'' | Some n \<Rightarrow> n))) s1
           in add_service w s2)
      | AVAHI_ENTRY_GROUP_FAILURE \<Rightarrow>
          Some (stop_publishing True (emit (G_warning ''avahi entry group failure'') s))
      | _ \<Rightarrow> Some s)"

definition dns_sd_get_poll :: "world \<Rightarrow> daemon \<Rightarrow> handle option \<times> daemon" where
  "dns_sd_get_poll w s =
     (case avahi_poll s of
        Some p \<Rightarrow> (Some p, s)
      | None \<Rightarrow>
          (let s1 = (emit Avahi_glib_poll_new s)\<lparr>avahi_poll := avahi_glib_poll_new w\<rparr>
           in case avahi_poll s1 of
                None \<Rightarrow>
                  (None, emit (G_warning ''couldn't initialize avahi glib poll integration'') s1)
              | Some p \<Rightarrow> (Some p, s1)))"

definition start_publishing :: "world \<Rightarrow> daemon \<Rightarrow> bool \<times> daemon" where
  "start_publishing w s =
     (let s1 = calc_share_name w (s\<lparr>share_alternate := 0\<rparr>)
      in case dns_sd_get_poll w s1 of
           (poll, s2) \<Rightarrow>
             (let s3 = (emit (Avahi_client_new poll) s2)\<lparr>avahi_client := avahi_client_new w poll\<rparr>
              in (avahi_client s3 \<noteq> None, s3)))"

text \<open>\<^verbatim>\<open>client_callback\<close>; a failed \<^verbatim>\<open>g_assert\<close> is \<open>None\<close>.\<close>

definition client_callback ::
  "world \<Rightarrow> handle \<Rightarrow> AvahiClientState \<Rightarrow> daemon \<Rightarrow> daemon option" where
  "client_callback w client state s =
     (if \<not> (avahi_client s = None \<or> avahi_client s = Some client) then None
      else case state of
        AVAHI_CLIENT_S_RUNNING \<Rightarrow>
          (case avahi_group s of
             Some g \<Rightarrow> add_service w s
           | None \<Rightarrow>
               (let s1 = (emit (Avahi_entry_group_new client) s)
                           \<lparr>avahi_group := avahi_entry_group_new w client\<rparr>
                in case avahi_group s1 of
                     None \<Rightarrow>
                       Some (stop_publishing True
                         (emit (G_warning ''couldn't create avahi services group'') s1))
                   | Some g \<Rightarrow> add_service w s1))
      | AVAHI_CLIENT_S_COLLISION \<Rightarrow>
          (case avahi_group s of
             None \<Rightarrow> Some s
           | Some g \<Rightarrow> Some (emit (Avahi_entry_group_reset g) s))
      | AVAHI_CLIENT_FAILURE \<Rightarrow>
          (let errmsg = (avahi_client_errno w client \<noteq> AVAHI_ERR_DISCONNECTED);
               s1 = (if errmsg then emit (G_warning ''failure talking with avahi'') s else s);
               s2 = stop_publishing errmsg s1;
               s3 = emit (Sleep 1) s2
           in Some (snd (start_publishing w s3)))
      | _ \<Rightarrow> Some s)"

subsection \<open>Stopping\<close>

definition stop_sharing :: "daemon \<Rightarrow> daemon" where
  "stop_sharing s =
     (let s1 = stop_publishing False s
      in if seahorse_hkp_server_is_running s1 then seahorse_hkp_server_stop s1 else s1)"

text \<open>\<open>n\<close> collision events of the entry group \<open>grp\<close>, one after the other.\<close>

fun collisions :: "world \<Rightarrow> handle \<Rightarrow> nat \<Rightarrow> daemon \<Rightarrow> daemon option" where
  "collisions w grp 0 s = Some s"
| "collisions w grp (Suc n) s =
     (case collisions w grp n s of
        None \<Rightarrow> None
      | Some s1 \<Rightarrow> services_callback w grp AVAHI_ENTRY_GROUP_COLLISION s1)"

section \<open>Sample inputs\<close>

text \<open>Concrete requests, key records and library answers on which the theorems below are run.\<close>

definition sample_armored_key :: string where
  "sample_armored_key =
     ''-----BEGIN PGP PUBLIC KEY BLOCK-----'' @ [CHR 0x0A] @ [CHR 0x0A] @
     ''mQENBF4eXYZ='' @ [CHR 0x0A] @ ''=AbCd'' @ [CHR 0x0A] @
     ''-----END PGP PUBLIC KEY BLOCK-----'' @ [CHR 0x0A]"

definition sample_get_keystore :: keystore where
  "sample_get_keystore =
     \<lparr>op_keylist_start = (\<lambda>sigs pattern. 0),
      op_keylist_next = (\<lambda>sigs pattern. []),
      data_new = 0,
      op_export = (\<lambda>pattern. 0),
      data_release_and_get_mem =
        (\<lambda>pattern. if pattern = ''<alice>'' then Some sample_armored_key else Some [])\<rparr>"

definition sample_get_request :: SoupMessage where
  "sample_get_request =
     \<lparr>request_method = ''GET'', status_code = 0, response_headers = [],
      response_content_type = None, response_body = None\<rparr>"

definition sample_empty_keystore :: keystore where
  "sample_empty_keystore =
     \<lparr>op_keylist_start = (\<lambda>sigs pattern. 0),
      op_keylist_next = (\<lambda>sigs pattern. []),
      data_new = 0,
      op_export = (\<lambda>pattern. 0),
      data_release_and_get_mem = (\<lambda>pattern. Some [])\<rparr>"

text \<open>
  The key record of the index scenario: not revoked, RSA, 2048 bits, created at
  2020-01-15 00:00:00 UTC (1579046400 seconds after the epoch), one user id
  named Alice without an email.
\<close>

definition sample_alice_key :: gpgme_key where
  "sample_alice_key =
     \<lparr>revoked = False,
      subkeys = [\<lparr>pubkey_algo = GPGME_PK_RSA, sk_length = 2048,
                  fpr = ''AAAA1111BBBB2222'', timestamp = 1579046400\<rparr>],
      uids = [\<lparr>uid_name = Some ''Alice'', uid_email = None, signatures = []\<rparr>]\<rparr>"

definition sample_alice_keystore :: keystore where
  "sample_alice_keystore =
     \<lparr>op_keylist_start = (\<lambda>sigs pattern. 0),
      op_keylist_next = (\<lambda>sigs pattern. if pattern = ''alice'' then [sample_alice_key] else []),
      data_new = 0,
      op_export = (\<lambda>pattern. 0),
      data_release_and_get_mem = (\<lambda>pattern. Some [])\<rparr>"

definition sample_alice_args :: GHashTable where
  "sample_alice_args = [(''op'', ''index''), (''search'', ''alice'')]"

text \<open>The key line of the index scenario, without its line end.\<close>

definition sample_alice_line :: string where
  \<open>sample_alice_line =
     ''pub  2048R/<a href="/pks/lookup?op=get&search=0xBBBB2222">BBBB2222</a> 2020/01/15 Alice ''\<close>

text \<open>A revoked key with two user ids; the first carries a signature.\<close>

definition sample_revoked_key :: gpgme_key where
  "sample_revoked_key =
     \<lparr>revoked = True,
      subkeys = [\<lparr>pubkey_algo = GPGME_PK_DSA, sk_length = 1024,
                  fpr = ''0123456789ABCDEF'', timestamp = 0\<rparr>],
      uids = [\<lparr>uid_name = Some ''Alice'', uid_email = None,
               signatures = [\<lparr>sig_name = Some ''Carol'', sig_email = None,
                               sig_keyid = ''1111222233334444''\<rparr>]\<rparr>,
              \<lparr>uid_name = Some ''Bob'', uid_email = None, signatures = []\<rparr>]\<rparr>"

text \<open>
  A running daemon (server 1, keystore session 2, group 3, client 4, poll 5) whose user
  is Alice, and libraries that answer every call with success.
\<close>

definition sample_daemon :: daemon where
  "sample_daemon =
     \<lparr>soup_server = Some 1, gpgme_ctx = Some 2, avahi_group = Some 3, avahi_client = Some 4,
      avahi_poll = Some 5, share_name = Some (''Alice'' @ [CHR 0x27] @ ''s encryption keys''),
      share_alternate = 0, trace = []\<rparr>"

definition sample_world :: world where
  "sample_world =
     \<lparr>g_get_real_name = Some ''Alice'',
      g_get_user_name = ''alice'',
      g_utf8_validate = (\<lambda>str. True),
      g_utf8_strup = (\<lambda>str. str),
      soup_server_get_port = (\<lambda>srv. 40000),
      avahi_glib_poll_new = Some 5,
      avahi_client_new = (\<lambda>poll. Some 6),
      avahi_client_errno = (\<lambda>client. - 1),
      avahi_entry_group_new = (\<lambda>client. Some 3),
      avahi_entry_group_add_service = (\<lambda>g name type port. 0),
      avahi_entry_group_commit = (\<lambda>g. 0)\<rparr>"

text \<open>The same libraries, but Avahi refuses every service record.\<close>

definition sample_world_refusing :: world where
  "sample_world_refusing =
     sample_world\<lparr>avahi_entry_group_add_service := (\<lambda>g name type port. - 1)\<rparr>"

text \<open>
  A daemon before its start, and libraries whose keystore works while the HTTP socket
  cannot be bound.
\<close>

definition sample_fresh_daemon :: daemon where
  "sample_fresh_daemon =
     \<lparr>soup_server = None, gpgme_ctx = None, avahi_group = None, avahi_client = None,
      avahi_poll = None, share_name = None, share_alternate = 0, trace = []\<rparr>"

definition sample_libs_no_socket :: server_libs where
  "sample_libs_no_socket =
     \<lparr>gpgme_check_version = True, gpgme_engine_check_version = 0, gpgme_new_code = 0,
      gpgme_new_ctx = 2, gpgme_set_protocol = 0, soup_server_new = (\<lambda>port. None)\<rparr>"

text \<open>Avahi as it is: a service name of more than 63 bytes is refused.\<close>

definition sample_world_63 :: world where
  "sample_world_63 =
     sample_world\<lparr>avahi_entry_group_add_service :=
       (\<lambda>g name type port. if length name \<le> 63 then 0 else - 10)\<rparr>"

section \<open>Properties\<close>

subsection \<open>Response headers\<close>

lemma headers_lookup_handle_error:
  "response_headers (snd (lookup_handle_error msg d g)) = response_headers msg"
  by (simp add: lookup_handle_error_def soup_message_set_response_def Let_def)

lemma headers_lookup_handle_index:
  "response_headers (snd (lookup_handle_index ks msg args v)) = response_headers msg"
  by (simp add: lookup_handle_index_def headers_lookup_handle_error
        soup_message_set_response_def Let_def split: option.splits prod.splits)

lemma headers_lookup_handle_get:
  "response_headers (snd (lookup_handle_get ks msg args)) = response_headers msg"
  by (simp add: lookup_handle_get_def headers_lookup_handle_error
        soup_message_set_response_def Let_def split: option.splits prod.splits)

lemma headers_lookup_callback:
  "response_headers (lookup_callback ks msg args) =
     response_headers msg @ [(''Connection'', ''close'')]"
  by (simp add: lookup_callback_def soup_message_set_status_def soup_message_headers_append_def
        headers_lookup_handle_error headers_lookup_handle_index headers_lookup_handle_get
        Let_def split_beta split: option.splits)

text \<open>
  Claim C8. Each of the three handlers that \<^verbatim>\<open>seahorse_hkp_server_start\<close> registers
  (\<^verbatim>\<open>/pks/lookup\<close>, \<^verbatim>\<open>/pks/add\<close> and the default handler of every other path) leaves
  the header \<^verbatim>\<open>Connection: close\<close> among the response headers, whatever the request:
  also for a lookup with another method than GET and for a lookup without a query.
\<close>

theorem connection_close_on_every_response:
  "(''Connection'', ''close'') \<in> set (response_headers (lookup_callback ks msg args))
   \<and> (''Connection'', ''close'') \<in> set (response_headers (add_callback msg))
   \<and> (''Connection'', ''close'') \<in> set (response_headers (default_callback msg))"
  by (simp add: headers_lookup_callback add_callback_def default_callback_def
        soup_message_headers_append_def)

subsection \<open>Identities without a name\<close>

text \<open>
  Claim C10. \<^verbatim>\<open>format_key_uid\<close> returns the empty string for an identity or a
  signature whose email is present and not empty and whose name is absent or empty:
  the email is printed neither as text nor as a link.
\<close>

theorem format_key_uid_email_without_name:
  assumes "name = None \<or> name = Some []" and "email = Some e" and "e \<noteq> []"
  shows "format_key_uid name keyid email = []"
  using assms by (auto simp: format_key_uid_def)

theorem format_key_uid_email_without_name_witness:
  "format_key_uid None ''0123456789ABCDEF'' (Some ''alice@example.org'') = []
   \<and> format_key_uid (Some []) ''0123456789ABCDEF'' (Some ''alice@example.org'') = []"
  using format_key_uid_email_without_name
          [of None "Some ''alice@example.org''" "''alice@example.org''" "''0123456789ABCDEF''"]
        format_key_uid_email_without_name
          [of "Some []" "Some ''alice@example.org''" "''alice@example.org''" "''0123456789ABCDEF''"]
  by simp

subsection \<open>Stopping twice\<close>

lemma seahorse_hkp_server_stop_handles:
  "soup_server (seahorse_hkp_server_stop s) = None \<and> gpgme_ctx (seahorse_hkp_server_stop s) = None"
  by (simp add: seahorse_hkp_server_stop_def emit_def Let_def split: option.split)

lemma seahorse_hkp_server_stop_stopped:
  "soup_server s = None \<Longrightarrow> gpgme_ctx s = None \<Longrightarrow> seahorse_hkp_server_stop s = s"
  by (simp add: seahorse_hkp_server_stop_def)

lemma seahorse_hkp_server_stop_frame:
  "avahi_group (seahorse_hkp_server_stop s) = avahi_group s
   \<and> avahi_client (seahorse_hkp_server_stop s) = avahi_client s
   \<and> share_name (seahorse_hkp_server_stop s) = share_name s"
  by (simp add: seahorse_hkp_server_stop_def emit_def Let_def split: option.split)

lemma stop_publishing_handles:
  "avahi_group (stop_publishing e s) = None \<and> avahi_client (stop_publishing e s) = None
   \<and> share_name (stop_publishing e s) = None"
  by (simp add: stop_publishing_def emit_def Let_def split: option.split)

lemma stop_publishing_frame:
  "soup_server (stop_publishing e s) = soup_server s \<and> gpgme_ctx (stop_publishing e s) = gpgme_ctx s"
  by (simp add: stop_publishing_def emit_def Let_def split: option.split)

lemma stop_publishing_stopped:
  "avahi_group s = None \<Longrightarrow> avahi_client s = None \<Longrightarrow> share_name s = None \<Longrightarrow>
   stop_publishing False s = s"
  by (simp add: stop_publishing_def)

lemma stop_sharing_handles:
  "avahi_group (stop_sharing s) = None \<and> avahi_client (stop_sharing s) = None
   \<and> share_name (stop_sharing s) = None \<and> soup_server (stop_sharing s) = None"
  by (simp add: stop_sharing_def Let_def seahorse_hkp_server_is_running_def
        seahorse_hkp_server_stop_handles seahorse_hkp_server_stop_frame stop_publishing_handles)

lemma stop_sharing_stopped:
  "avahi_group s = None \<Longrightarrow> avahi_client s = None \<Longrightarrow> share_name s = None \<Longrightarrow>
   \<not> seahorse_hkp_server_is_running s \<Longrightarrow> stop_sharing s = s"
  by (simp add: stop_sharing_def Let_def stop_publishing_stopped)

lemma start_without_socket:
  "seahorse_hkp_server_start sample_libs_no_socket sample_fresh_daemon =
     (False, sample_fresh_daemon\<lparr>gpgme_ctx := Some 2, trace := [Gpgme_new, Soup_server_new 0]\<rparr>)"
  by (simp add: seahorse_hkp_server_start_def sample_libs_no_socket_def sample_fresh_daemon_def
        emit_def Let_def HKP_FIXED_PORT_def SOUP_ADDRESS_ANY_PORT_def)

text \<open>
  Claim C7, as amended. \<^verbatim>\<open>seahorse_hkp_server_stop\<close> in a state that holds neither a
  server nor a keystore session changes nothing, and \<^verbatim>\<open>stop_sharing\<close> in a state
  without client, group and share name whose server is not running changes nothing.
  In every state, \<^verbatim>\<open>seahorse_hkp_server_stop\<close> leaves both handles \<^verbatim>\<open>NULL\<close> and
  \<^verbatim>\<open>stop_sharing\<close> leaves client, group, share name and server \<^verbatim>\<open>NULL\<close>; so a second
  call right after a first returns the state of the first: every handle, the share
  name and the collision number stay, and the equal traces say that the second call
  frees nothing and shows no error.
\<close>

theorem stop_when_stopped:
  "(soup_server s = None \<and> gpgme_ctx s = None \<longrightarrow> seahorse_hkp_server_stop s = s)
   \<and> (avahi_group s = None \<and> avahi_client s = None \<and> share_name s = None
        \<and> \<not> seahorse_hkp_server_is_running s \<longrightarrow> stop_sharing s = s)
   \<and> soup_server (seahorse_hkp_server_stop s) = None
   \<and> gpgme_ctx (seahorse_hkp_server_stop s) = None
   \<and> \<not> seahorse_hkp_server_is_running (seahorse_hkp_server_stop s)
   \<and> avahi_group (stop_sharing s) = None \<and> avahi_client (stop_sharing s) = None
   \<and> share_name (stop_sharing s) = None
   \<and> \<not> seahorse_hkp_server_is_running (stop_sharing s)
   \<and> seahorse_hkp_server_stop (seahorse_hkp_server_stop s) = seahorse_hkp_server_stop s
   \<and> stop_sharing (stop_sharing s) = stop_sharing s"
proof -
  have a: "seahorse_hkp_server_stop (seahorse_hkp_server_stop s) = seahorse_hkp_server_stop s"
    by (rule seahorse_hkp_server_stop_stopped) (simp_all add: seahorse_hkp_server_stop_handles)
  have r: "\<not> seahorse_hkp_server_is_running (stop_sharing s)"
    by (simp add: seahorse_hkp_server_is_running_def stop_sharing_handles)
  have b: "stop_sharing (stop_sharing s) = stop_sharing s"
    by (rule stop_sharing_stopped) (simp_all add: stop_sharing_handles r)
  show ?thesis
    using a b r seahorse_hkp_server_stop_stopped [of s] stop_sharing_stopped [of s]
      seahorse_hkp_server_stop_handles [of s] stop_sharing_handles [of s]
    by (simp add: seahorse_hkp_server_is_running_def)
qed

theorem stop_when_stopped_witness:
  "seahorse_hkp_server_stop sample_fresh_daemon = sample_fresh_daemon
   \<and> stop_sharing sample_fresh_daemon = sample_fresh_daemon
   \<and> soup_server (seahorse_hkp_server_stop sample_daemon) = None
   \<and> gpgme_ctx (seahorse_hkp_server_stop sample_daemon) = None
   \<and> stop_sharing (stop_sharing sample_daemon) = stop_sharing sample_daemon"
  using stop_when_stopped [of sample_fresh_daemon] stop_when_stopped [of sample_daemon]
  by (simp add: sample_fresh_daemon_def seahorse_hkp_server_is_running_def)

text \<open>
  Claim C7, as stated, fails for "not running": \<^verbatim>\<open>seahorse_hkp_server_is_running\<close> looks at
  the server handle only. After a start whose keystore session is made and whose socket
  cannot be bound, the server is not running, and \<^verbatim>\<open>seahorse_hkp_server_stop\<close> still
  releases the session: the state changes.
\<close>

theorem stop_not_running_counterexample:
  "\<not> seahorse_hkp_server_is_running
       (snd (seahorse_hkp_server_start sample_libs_no_socket sample_fresh_daemon))
   \<and> seahorse_hkp_server_stop
       (snd (seahorse_hkp_server_start sample_libs_no_socket sample_fresh_daemon))
     \<noteq> snd (seahorse_hkp_server_start sample_libs_no_socket sample_fresh_daemon)
   \<and> gpgme_ctx (snd (seahorse_hkp_server_start sample_libs_no_socket sample_fresh_daemon)) = Some 2
   \<and> gpgme_ctx (seahorse_hkp_server_stop
       (snd (seahorse_hkp_server_start sample_libs_no_socket sample_fresh_daemon))) = None"
proof -
  let ?s = "snd (seahorse_hkp_server_start sample_libs_no_socket sample_fresh_daemon)"
  have c: "gpgme_ctx ?s = Some 2" and n: "soup_server ?s = None"
    unfolding start_without_socket by (simp_all add: sample_fresh_daemon_def)
  have d: "gpgme_ctx (seahorse_hkp_server_stop ?s) = None"
    by (simp add: seahorse_hkp_server_stop_handles)
  have "seahorse_hkp_server_stop ?s \<noteq> ?s"
  proof
    assume "seahorse_hkp_server_stop ?s = ?s"
    then have "gpgme_ctx (seahorse_hkp_server_stop ?s) = gpgme_ctx ?s" by simp
    with c d show False by simp
  qed
  then show ?thesis using c d n by (simp add: seahorse_hkp_server_is_running_def)
qed

subsection \<open>Facts about the helpers\<close>

lemma strlen_no_nul: "CHR 0x00 \<notin> set buf \<Longrightarrow> strlen buf = length buf"
  unfolding strlen_def by (induction buf) auto

lemma escape_html_no_nul: "CHR 0x00 \<notin> set str \<Longrightarrow> CHR 0x00 \<notin> set (escape_html str)"
  by (induction str) simp_all

lemma g_ascii_strcasecmp_heads:
  "g_ascii_strcasecmp (x # xs) (y # ys) = 0 \<Longrightarrow> g_ascii_tolower x = g_ascii_tolower y"
  by (simp add: Let_def split: if_splits)

lemma g_ascii_tolower_lower:
  "g_ascii_tolower (CHR ''g'') = CHR ''g''" "g_ascii_tolower (CHR ''i'') = CHR ''i''"
  "g_ascii_tolower (CHR ''v'') = CHR ''v''"
  by (simp_all add: g_ascii_tolower_def)

lemma op_get_is_no_index:
  assumes "g_ascii_strcasecmp t ''get'' = 0"
  shows "t \<noteq> [] \<and> g_ascii_strcasecmp t ''index'' \<noteq> 0 \<and> g_ascii_strcasecmp t ''vindex'' \<noteq> 0"
proof (cases t)
  case Nil
  with assms show ?thesis by simp
next
  case (Cons x xs)
  from assms have g: "g_ascii_tolower x = CHR ''g''"
    unfolding Cons using g_ascii_strcasecmp_heads [of x xs "CHR ''g''" "''et''"]
    by (simp only: g_ascii_tolower_lower)
  have "g_ascii_strcasecmp (x # xs) ''index'' \<noteq> 0"
  proof
    assume "g_ascii_strcasecmp (x # xs) ''index'' = 0"
    then have "g_ascii_tolower x = CHR ''i''"
      using g_ascii_strcasecmp_heads [of x xs "CHR ''i''" "''ndex''"]
      by (simp only: g_ascii_tolower_lower)
    with g show False by simp
  qed
  moreover have "g_ascii_strcasecmp (x # xs) ''vindex'' \<noteq> 0"
  proof
    assume "g_ascii_strcasecmp (x # xs) ''vindex'' = 0"
    then have "g_ascii_tolower x = CHR ''v''"
      using g_ascii_strcasecmp_heads [of x xs "CHR ''v''" "''index''"]
      by (simp only: g_ascii_tolower_lower)
    with g show False by simp
  qed
  ultimately show ?thesis unfolding Cons by simp
qed

lemma g_hash_table_size_lookup:
  "g_hash_table_lookup args k = Some v \<Longrightarrow> g_hash_table_size args \<noteq> 0"
  by (cases args) (auto simp: g_hash_table_lookup_def g_hash_table_size_def)

lemma HKP_GET_PREFIX_no_nul:
  "CHR 0x00 \<notin> set t \<Longrightarrow> CHR 0x00 \<notin> set (HKP_GET_PREFIX t t)"
  by (simp add: HKP_GET_PREFIX_def CRLF_def)

subsection \<open>The get operation\<close>

lemma lookup_handle_get_found:
  assumes "g_hash_table_lookup args ''search'' = Some search" and "search \<noteq> []"
    and "data_new ks = 0" and "op_export ks search = 0"
    and "data_release_and_get_mem ks search = Some key" and "key \<noteq> []"
    and "CHR 0x00 \<notin> set search" and "CHR 0x00 \<notin> set key"
  shows "lookup_handle_get ks msg args =
           (SOUP_STATUS_OK,
            msg\<lparr>response_content_type := Some ''text/html'',
                response_body := Some (HKP_GET_PREFIX (escape_html search) (escape_html search)
                                         @ key @ HKP_GET_SUFFIX)\<rparr>)"
proof -
  let ?resp = "HKP_GET_PREFIX (escape_html search) (escape_html search) @ key @ HKP_GET_SUFFIX"
  have "CHR 0x00 \<notin> set ?resp"
    using assms(7,8) by (simp add: HKP_GET_PREFIX_no_nul escape_html_no_nul HKP_GET_SUFFIX_def CRLF_def)
  then have "strlen ?resp = length ?resp" by (rule strlen_no_nul)
  then show ?thesis
    using assms(1-6)
    by (simp add: lookup_handle_get_def soup_message_set_response_def Let_def)
qed

lemma lookup_callback_op:
  assumes "request_method msg = SOUP_METHOD_GET"
    and "g_hash_table_lookup args ''op'' = Some t" and "t \<noteq> []"
  shows "lookup_callback ks msg (Some args) =
     (case (if g_ascii_strcasecmp t ''index'' = 0 then
              lookup_handle_index ks (soup_message_headers_append msg ''Connection'' ''close'') args False
            else if g_ascii_strcasecmp t ''vindex'' = 0 then
              lookup_handle_index ks (soup_message_headers_append msg ''Connection'' ''close'') args True
            else if g_ascii_strcasecmp t ''get'' = 0 then
              lookup_handle_get ks (soup_message_headers_append msg ''Connection'' ''close'') args
            else lookup_handle_error (soup_message_headers_append msg ''Connection'' ''close'')
                   ''pks request had an invalid <b>op</b> property'' 0)
      of (code, msg1) \<Rightarrow> soup_message_set_status msg1 code)"
proof -
  have m: "request_method (soup_message_headers_append msg ''Connection'' ''close'') = SOUP_METHOD_GET"
    using assms(1) by (simp add: soup_message_headers_append_def)
  show ?thesis
    unfolding lookup_callback_def Let_def
    using assms(2,3) g_hash_table_size_lookup [OF assms(2)] m
    by simp
qed

text \<open>
  Claim C6. A GET request to \<^verbatim>\<open>/pks/lookup\<close> whose \<open>op\<close> is \<^verbatim>\<open>get\<close> (in any case of
  letters), with a search term that is not empty, for which the export succeeds and
  yields key text that is not empty: the status is 200 and the body is exactly the get
  header with the HTML-escaped search term in its two places, then the exported key
  text byte for byte, unescaped, then the fixed suffix. The search term is a C string
  and armored key text is ASCII, so neither holds a NUL byte; the body is measured with
  \<^verbatim>\<open>strlen\<close>.
\<close>

theorem get_body_is_armored_key:
  assumes "request_method msg = SOUP_METHOD_GET"
    and "g_hash_table_lookup args ''op'' = Some t" and "g_ascii_strcasecmp t ''get'' = 0"
    and "g_hash_table_lookup args ''search'' = Some search" and "search \<noteq> []"
    and "data_new ks = 0" and "op_export ks search = 0"
    and "data_release_and_get_mem ks search = Some key" and "key \<noteq> []"
    and "CHR 0x00 \<notin> set search" and "CHR 0x00 \<notin> set key"
  shows "response_body (lookup_callback ks msg (Some args)) =
           Some (HKP_GET_PREFIX (escape_html search) (escape_html search) @ key @ HKP_GET_SUFFIX)
         \<and> status_code (lookup_callback ks msg (Some args)) = 200"
proof -
  note n = op_get_is_no_index [OF assms(3)]
  have "lookup_callback ks msg (Some args) =
     (case lookup_handle_get ks (soup_message_headers_append msg ''Connection'' ''close'') args
      of (code, msg1) \<Rightarrow> soup_message_set_status msg1 code)"
    using n assms(3) by (simp add: lookup_callback_op [OF assms(1,2)])
  then show ?thesis
    by (simp add: lookup_handle_get_found [OF assms(4-11)] soup_message_set_status_def
          SOUP_STATUS_OK_def)
qed


theorem get_body_is_armored_key_witness:
  "response_body (lookup_callback sample_get_keystore sample_get_request
       (Some [(''op'', ''GET''), (''search'', ''<alice>'')])) =
     Some (HKP_GET_PREFIX ''&lt;alice&gt;'' ''&lt;alice&gt;'' @ sample_armored_key @ HKP_GET_SUFFIX)
   \<and> status_code (lookup_callback sample_get_keystore sample_get_request
       (Some [(''op'', ''GET''), (''search'', ''<alice>'')])) = 200"
proof -
  have c: "g_ascii_strcasecmp ''GET'' ''get'' = 0" by code_simp
  show ?thesis
    using get_body_is_armored_key [of sample_get_request "[(''op'', ''GET''), (''search'', ''<alice>'')]"
            "''GET''" "''<alice>''" sample_get_keystore sample_armored_key, OF _ _ c]
    by (simp add: sample_get_request_def sample_get_keystore_def sample_armored_key_def
          SOUP_METHOD_GET_def g_hash_table_lookup_def)
qed

subsection \<open>The lookup handlers\<close>

lemma lookup_handle_error_result:
  "CHR 0x00 \<notin> set details \<Longrightarrow>
   lookup_handle_error msg details gerr =
     (SOUP_STATUS_OK,
      msg\<lparr>response_content_type := Some ''text/html'',
          response_body := Some (HKP_ERROR_RESPONSE details)\<rparr>)"
proof -
  assume "CHR 0x00 \<notin> set details"
  then have "CHR 0x00 \<notin> set (HKP_ERROR_RESPONSE details)"
    by (simp add: HKP_ERROR_RESPONSE_def CRLF_def)
  then have "strlen (HKP_ERROR_RESPONSE details) = length (HKP_ERROR_RESPONSE details)"
    by (rule strlen_no_nul)
  then show ?thesis
    by (simp add: lookup_handle_error_def soup_message_set_response_def Let_def)
qed

lemma fst_lookup_handle_error: "fst (lookup_handle_error msg details gerr) = SOUP_STATUS_OK"
  by (simp add: lookup_handle_error_def Let_def)

lemma fst_lookup_handle_index: "fst (lookup_handle_index ks msg args verbose) = SOUP_STATUS_OK"
  by (simp add: lookup_handle_index_def fst_lookup_handle_error Let_def
        split: option.splits prod.splits)

lemma fst_lookup_handle_get: "fst (lookup_handle_get ks msg args) = SOUP_STATUS_OK"
  by (simp add: lookup_handle_get_def fst_lookup_handle_error Let_def split: option.splits)

lemma keylist_loop_found:
  "snd (keylist_loop verbose fingerprints search keys response found) = (found \<or> keys \<noteq> [])"
  by (induction keys arbitrary: response found) (simp_all add: Let_def)

lemma g_ascii_tolower_i_v:
  "g_ascii_tolower (CHR ''i'') \<noteq> g_ascii_tolower (CHR ''v'')"
  by (simp add: g_ascii_tolower_lower)

lemma op_index_is_no_vindex:
  "g_ascii_strcasecmp t ''index'' = 0 \<Longrightarrow> g_ascii_strcasecmp t ''vindex'' \<noteq> 0"
proof (cases t)
  case Nil
  then show ?thesis by simp
next
  case (Cons x xs)
  assume "g_ascii_strcasecmp t ''index'' = 0"
  then have i: "g_ascii_tolower x = CHR ''i''"
    unfolding Cons using g_ascii_strcasecmp_heads [of x xs "CHR ''i''" "''ndex''"]
    by (simp only: g_ascii_tolower_lower)
  show ?thesis
  proof
    assume "g_ascii_strcasecmp t ''vindex'' = 0"
    then have "g_ascii_tolower x = CHR ''v''"
      unfolding Cons using g_ascii_strcasecmp_heads [of x xs "CHR ''v''" "''index''"]
      by (simp only: g_ascii_tolower_lower)
    with i show False by simp
  qed
qed

lemma op_index_nonempty:
  "g_ascii_strcasecmp t ''index'' = 0 \<or> g_ascii_strcasecmp t ''vindex'' = 0 \<Longrightarrow> t \<noteq> []"
  by (cases t) auto

lemma lookup_handle_index_none:
  assumes "g_hash_table_lookup args ''search'' = Some search" and "search \<noteq> []"
    and "op_keylist_start ks verbose search = 0"
    and "op_keylist_next ks verbose search = []"
  shows "lookup_handle_index ks msg args verbose =
           (SOUP_STATUS_OK,
            msg\<lparr>response_content_type := Some ''text/html'',
                response_body := Some (HKP_ERROR_RESPONSE ''No matching keys in database'')\<rparr>)"
  using assms
  by (simp add: lookup_handle_index_def Let_def lookup_handle_error_result)

lemma lookup_handle_index_some:
  assumes "g_hash_table_lookup args ''search'' = Some search" and "search \<noteq> []"
    and "op_keylist_start ks verbose search = 0"
    and "op_keylist_next ks verbose search \<noteq> []"
  shows "lookup_handle_index ks msg args verbose =
           (let fingerprints =
                  (case g_hash_table_lookup args ''fingerprint'' of
                     None \<Rightarrow> False | Some t \<Rightarrow> g_ascii_strcasecmp t ''on'' = 0);
                resp = fst (keylist_loop verbose fingerprints search
                              (op_keylist_next ks verbose search) [] False) @ HKP_INDEX_SUFFIX
            in (SOUP_STATUS_OK,
                msg\<lparr>response_content_type := Some ''text/html'',
                    response_body := Some (take (strlen resp) resp)\<rparr>))"
proof -
  have "\<And>f. snd (keylist_loop verbose f search (op_keylist_next ks verbose search) [] False)"
    using assms(4) by (simp add: keylist_loop_found)
  then show ?thesis
    using assms(1-3)
    by (simp add: lookup_handle_index_def Let_def soup_message_set_response_def split_beta)
qed

subsection \<open>An index without a match\<close>

text \<open>
  Claim C3. A GET request to \<^verbatim>\<open>/pks/lookup\<close> whose \<open>op\<close> is \<^verbatim>\<open>index\<close> or \<^verbatim>\<open>vindex\<close>
  (\<open>verbose\<close> tells which), with a search term that is not empty, whose key listing
  starts without an error. When the listing returns no key, the status is 200 and the
  body is the error page with the text \<^verbatim>\<open>No matching keys in database\<close>. The index
  page (the header, the lines of the keys, the suffix) is the body only when the
  listing returns at least one key: the flag \<^verbatim>\<open>found\<close> of the loop is then set
  (\<open>keylist_loop_found\<close>).
\<close>

theorem index_without_match:
  assumes "request_method msg = SOUP_METHOD_GET"
    and "g_hash_table_lookup args ''op'' = Some t"
    and "(g_ascii_strcasecmp t ''index'' = 0 \<and> \<not> verbose)
         \<or> (g_ascii_strcasecmp t ''vindex'' = 0 \<and> verbose)"
    and "g_hash_table_lookup args ''search'' = Some search" and "search \<noteq> []"
    and "op_keylist_start ks verbose search = 0"
  shows "(op_keylist_next ks verbose search = [] \<longrightarrow>
            status_code (lookup_callback ks msg (Some args)) = 200
            \<and> response_body (lookup_callback ks msg (Some args)) =
                Some (HKP_ERROR_RESPONSE ''No matching keys in database''))
         \<and> (op_keylist_next ks verbose search \<noteq> [] \<longrightarrow>
            status_code (lookup_callback ks msg (Some args)) = 200
            \<and> response_body (lookup_callback ks msg (Some args)) =
                (let fingerprints =
                       (case g_hash_table_lookup args ''fingerprint'' of
                          None \<Rightarrow> False | Some t \<Rightarrow> g_ascii_strcasecmp t ''on'' = 0);
                     resp = fst (keylist_loop verbose fingerprints search
                                   (op_keylist_next ks verbose search) [] False)
                            @ HKP_INDEX_SUFFIX
                 in Some (take (strlen resp) resp)))"
proof -
  let ?msg = "soup_message_headers_append msg ''Connection'' ''close''"
  have ne: "t \<noteq> []" using assms(3) op_index_nonempty [of t] by blast
  have cb: "lookup_callback ks msg (Some args) =
      (case lookup_handle_index ks ?msg args verbose
       of (code, msg1) \<Rightarrow> soup_message_set_status msg1 code)"
    using assms(3) op_index_is_no_vindex [of t]
    by (auto simp: lookup_callback_op [OF assms(1,2) ne])
  show ?thesis
  proof (cases "op_keylist_next ks verbose search = []")
    case True
    then show ?thesis
      by (simp add: cb lookup_handle_index_none [OF assms(4-6) True]
            soup_message_set_status_def SOUP_STATUS_OK_def)
  next
    case False
    then show ?thesis
      by (simp add: cb lookup_handle_index_some [OF assms(4-6) False]
            soup_message_set_status_def SOUP_STATUS_OK_def Let_def)
  qed
qed

theorem index_without_match_witness:
  "status_code (lookup_callback sample_empty_keystore sample_get_request
       (Some [(''op'', ''index''), (''search'', ''nobody'')])) = 200
   \<and> response_body (lookup_callback sample_empty_keystore sample_get_request
       (Some [(''op'', ''index''), (''search'', ''nobody'')])) =
       Some (HKP_ERROR_RESPONSE ''No matching keys in database'')"
proof -
  have c: "(g_ascii_strcasecmp ''index'' ''index'' = 0 \<and> \<not> False)
         \<or> (g_ascii_strcasecmp ''index'' ''vindex'' = 0 \<and> False)" by code_simp
  show ?thesis
    using index_without_match [of sample_get_request "[(''op'', ''index''), (''search'', ''nobody'')]"
            "''index''" False "''nobody''" sample_empty_keystore, OF _ _ c]
    by (simp add: sample_get_request_def sample_empty_keystore_def
          SOUP_METHOD_GET_def g_hash_table_lookup_def)
qed

lemma status_lookup_callback_query:
  assumes "request_method msg = SOUP_METHOD_GET" and "g_hash_table_size args \<noteq> 0"
  shows "status_code (lookup_callback ks msg (Some args)) = 200"
proof -
  have m: "request_method (soup_message_headers_append msg ''Connection'' ''close'') = SOUP_METHOD_GET"
    using assms(1) by (simp add: soup_message_headers_append_def)
  have s: "\<And>p. status_code (case p of (code, msg1) \<Rightarrow> soup_message_set_status msg1 code) = fst p"
    by (simp add: split_beta soup_message_set_status_def)
  show ?thesis
    unfolding lookup_callback_def Let_def
    using assms(2) m
    by (simp add: s fst_lookup_handle_error fst_lookup_handle_index fst_lookup_handle_get
          SOUP_STATUS_OK_def split: option.split)
qed

lemma lookup_callback_no_query:
  assumes "request_method msg = SOUP_METHOD_GET"
    and "args0 = None \<or> (\<exists>a. args0 = Some a \<and> g_hash_table_size a = 0)"
  shows "status_code (lookup_callback ks msg args0) = 405
         \<and> response_body (lookup_callback ks msg args0) =
             Some (HKP_ERROR_RESPONSE ''pks request had no query string'')"
proof -
  have m: "request_method (soup_message_headers_append msg ''Connection'' ''close'') = SOUP_METHOD_GET"
    using assms(1) by (simp add: soup_message_headers_append_def)
  show ?thesis
    unfolding lookup_callback_def Let_def
    using assms(2) m
    by (auto simp: lookup_handle_error_result soup_message_set_status_def
          SOUP_STATUS_METHOD_NOT_ALLOWED_def)
qed

lemma lookup_callback_no_op:
  assumes "request_method msg = SOUP_METHOD_GET" and "g_hash_table_size args \<noteq> 0"
    and "g_hash_table_lookup args ''op'' = None \<or> g_hash_table_lookup args ''op'' = Some []"
  shows "response_body (lookup_callback ks msg (Some args)) =
             Some (HKP_ERROR_RESPONSE ''pks request did not include an <b>op</b> property'')"
proof -
  have m: "request_method (soup_message_headers_append msg ''Connection'' ''close'') = SOUP_METHOD_GET"
    using assms(1) by (simp add: soup_message_headers_append_def)
  show ?thesis
    unfolding lookup_callback_def Let_def
    using assms(2,3) m
    by (auto simp: lookup_handle_error_result soup_message_set_status_def)
qed

lemma lookup_callback_invalid_op:
  assumes "request_method msg = SOUP_METHOD_GET"
    and "g_hash_table_lookup args ''op'' = Some t" and "t \<noteq> []"
    and "g_ascii_strcasecmp t ''index'' \<noteq> 0" and "g_ascii_strcasecmp t ''vindex'' \<noteq> 0"
    and "g_ascii_strcasecmp t ''get'' \<noteq> 0"
  shows "response_body (lookup_callback ks msg (Some args)) =
             Some (HKP_ERROR_RESPONSE ''pks request had an invalid <b>op</b> property'')"
  using assms(4-6)
  by (simp add: lookup_callback_op [OF assms(1-3)] lookup_handle_error_result
        soup_message_set_status_def)

lemma lookup_handle_index_errors:
  "(g_hash_table_lookup args ''search'' = None \<or> g_hash_table_lookup args ''search'' = Some [] \<longrightarrow>
      response_body (snd (lookup_handle_index ks msg args verbose)) =
        Some (HKP_ERROR_RESPONSE ''pks request did not include a <b>search</b> property''))
   \<and> (\<forall>search. g_hash_table_lookup args ''search'' = Some search \<and> search \<noteq> []
          \<and> op_keylist_start ks verbose search \<noteq> 0 \<longrightarrow>
      response_body (snd (lookup_handle_index ks msg args verbose)) =
        Some (HKP_ERROR_RESPONSE ''Error retrieving key(s)''))
   \<and> (\<forall>search. g_hash_table_lookup args ''search'' = Some search \<and> search \<noteq> []
          \<and> op_keylist_start ks verbose search = 0 \<and> op_keylist_next ks verbose search = [] \<longrightarrow>
      response_body (snd (lookup_handle_index ks msg args verbose)) =
        Some (HKP_ERROR_RESPONSE ''No matching keys in database''))"
  by (auto simp: lookup_handle_index_def Let_def lookup_handle_error_result)

lemma lookup_handle_get_errors:
  "(g_hash_table_lookup args ''search'' = None \<or> g_hash_table_lookup args ''search'' = Some [] \<longrightarrow>
      response_body (snd (lookup_handle_get ks msg args)) =
        Some (HKP_ERROR_RESPONSE ''pks request did not include a <b>search</b> property''))
   \<and> (\<forall>search. g_hash_table_lookup args ''search'' = Some search \<and> search \<noteq> [] \<longrightarrow>
        (data_new ks \<noteq> 0 \<longrightarrow>
           response_body (snd (lookup_handle_get ks msg args)) =
             Some (HKP_ERROR_RESPONSE ''Internal error''))
        \<and> (data_new ks = 0 \<and> op_export ks search \<noteq> 0 \<longrightarrow>
           response_body (snd (lookup_handle_get ks msg args)) =
             Some (HKP_ERROR_RESPONSE ''Error retrieving key(s)''))
        \<and> (data_new ks = 0 \<and> op_export ks search = 0
            \<and> (data_release_and_get_mem ks search = None
                \<or> data_release_and_get_mem ks search = Some []) \<longrightarrow>
           response_body (snd (lookup_handle_get ks msg args)) =
             Some (HKP_ERROR_RESPONSE ''No matching key in database'')))"
  by (auto simp: lookup_handle_get_def Let_def lookup_handle_error_result)

lemma body_set_status:
  "response_body (case p of (code, msg1) \<Rightarrow> soup_message_set_status msg1 code) =
     response_body (snd p)"
  by (simp add: split_beta soup_message_set_status_def)

lemma lookup_callback_index_body:
  assumes "request_method msg = SOUP_METHOD_GET"
    and "g_hash_table_lookup args ''op'' = Some t"
    and "(g_ascii_strcasecmp t ''index'' = 0 \<and> \<not> verbose)
         \<or> (g_ascii_strcasecmp t ''vindex'' = 0 \<and> verbose)"
  shows "response_body (lookup_callback ks msg (Some args)) =
           response_body (snd (lookup_handle_index ks
             (soup_message_headers_append msg ''Connection'' ''close'') args verbose))"
proof -
  have ne: "t \<noteq> []" using assms(3) op_index_nonempty [of t] by blast
  have "lookup_callback ks msg (Some args) =
      (case lookup_handle_index ks (soup_message_headers_append msg ''Connection'' ''close'')
              args verbose
       of (code, msg1) \<Rightarrow> soup_message_set_status msg1 code)"
    using assms(3) op_index_is_no_vindex [of t]
    by (auto simp: lookup_callback_op [OF assms(1,2) ne])
  then show ?thesis by (simp only: body_set_status)
qed

lemma lookup_callback_get_body:
  assumes "request_method msg = SOUP_METHOD_GET"
    and "g_hash_table_lookup args ''op'' = Some t"
    and "g_ascii_strcasecmp t ''get'' = 0"
  shows "response_body (lookup_callback ks msg (Some args)) =
           response_body (snd (lookup_handle_get ks
             (soup_message_headers_append msg ''Connection'' ''close'') args))"
proof -
  note n = op_get_is_no_index [OF assms(3)]
  have "lookup_callback ks msg (Some args) =
     (case lookup_handle_get ks (soup_message_headers_append msg ''Connection'' ''close'') args
      of (code, msg1) \<Rightarrow> soup_message_set_status msg1 code)"
    using n assms(3) by (simp add: lookup_callback_op [OF assms(1,2)])
  then show ?thesis by (simp only: body_set_status)
qed

subsection \<open>Status codes of a lookup\<close>

text \<open>
  Claim C2. For a GET request to \<^verbatim>\<open>/pks/lookup\<close>: without a query (no table, or a table
  without entries) the status is 405 and the body is the error page that names the
  missing query string. With a query the status is 200 in every case, and the body is
  the error page with the message of the error: \<open>op\<close> missing or empty, \<open>op\<close> not one of
  \<^verbatim>\<open>index\<close>, \<^verbatim>\<open>vindex\<close>, \<^verbatim>\<open>get\<close>; for an index, \<open>search\<close> missing or empty, a listing that
  fails to start, a listing without a key; for a get, \<open>search\<close> missing or empty, a data
  buffer that cannot be made, an export that fails, an export that yields nothing.
\<close>

theorem lookup_status_codes:
  assumes "request_method msg = SOUP_METHOD_GET"
  shows
    "(args0 = None \<or> (\<exists>a. args0 = Some a \<and> g_hash_table_size a = 0) \<longrightarrow>
        status_code (lookup_callback ks msg args0) = 405
        \<and> response_body (lookup_callback ks msg args0) =
            Some (HKP_ERROR_RESPONSE ''pks request had no query string''))
     \<and> (\<forall>args. args0 = Some args \<and> g_hash_table_size args \<noteq> 0 \<longrightarrow>
        status_code (lookup_callback ks msg args0) = 200
        \<and> (g_hash_table_lookup args ''op'' = None \<or> g_hash_table_lookup args ''op'' = Some [] \<longrightarrow>
             response_body (lookup_callback ks msg args0) =
               Some (HKP_ERROR_RESPONSE ''pks request did not include an <b>op</b> property''))
        \<and> (\<forall>t. g_hash_table_lookup args ''op'' = Some t \<and> t \<noteq> []
                \<and> g_ascii_strcasecmp t ''index'' \<noteq> 0 \<and> g_ascii_strcasecmp t ''vindex'' \<noteq> 0
                \<and> g_ascii_strcasecmp t ''get'' \<noteq> 0 \<longrightarrow>
             response_body (lookup_callback ks msg args0) =
               Some (HKP_ERROR_RESPONSE ''pks request had an invalid <b>op</b> property''))
        \<and> (\<forall>t verbose. g_hash_table_lookup args ''op'' = Some t
                \<and> ((g_ascii_strcasecmp t ''index'' = 0 \<and> \<not> verbose)
                    \<or> (g_ascii_strcasecmp t ''vindex'' = 0 \<and> verbose)) \<longrightarrow>
             (g_hash_table_lookup args ''search'' = None
              \<or> g_hash_table_lookup args ''search'' = Some [] \<longrightarrow>
                response_body (lookup_callback ks msg args0) =
                  Some (HKP_ERROR_RESPONSE
                          ''pks request did not include a <b>search</b> property''))
             \<and> (\<forall>search. g_hash_table_lookup args ''search'' = Some search \<and> search \<noteq> []
                    \<and> op_keylist_start ks verbose search \<noteq> 0 \<longrightarrow>
                response_body (lookup_callback ks msg args0) =
                  Some (HKP_ERROR_RESPONSE ''Error retrieving key(s)''))
             \<and> (\<forall>search. g_hash_table_lookup args ''search'' = Some search \<and> search \<noteq> []
                    \<and> op_keylist_start ks verbose search = 0
                    \<and> op_keylist_next ks verbose search = [] \<longrightarrow>
                response_body (lookup_callback ks msg args0) =
                  Some (HKP_ERROR_RESPONSE ''No matching keys in database'')))
        \<and> (\<forall>t. g_hash_table_lookup args ''op'' = Some t \<and> g_ascii_strcasecmp t ''get'' = 0 \<longrightarrow>
             (g_hash_table_lookup args ''search'' = None
              \<or> g_hash_table_lookup args ''search'' = Some [] \<longrightarrow>
                response_body (lookup_callback ks msg args0) =
                  Some (HKP_ERROR_RESPONSE
                          ''pks request did not include a <b>search</b> property''))
             \<and> (\<forall>search. g_hash_table_lookup args ''search'' = Some search \<and> search \<noteq> [] \<longrightarrow>
                  (data_new ks \<noteq> 0 \<longrightarrow>
                     response_body (lookup_callback ks msg args0) =
                       Some (HKP_ERROR_RESPONSE ''Internal error''))
                  \<and> (data_new ks = 0 \<and> op_export ks search \<noteq> 0 \<longrightarrow>
                     response_body (lookup_callback ks msg args0) =
                       Some (HKP_ERROR_RESPONSE ''Error retrieving key(s)''))
                  \<and> (data_new ks = 0 \<and> op_export ks search = 0
                      \<and> (data_release_and_get_mem ks search = None
                          \<or> data_release_and_get_mem ks search = Some []) \<longrightarrow>
                     response_body (lookup_callback ks msg args0) =
                       Some (HKP_ERROR_RESPONSE ''No matching key in database'')))))"
proof (intro conjI allI impI)
  assume "args0 = None \<or> (\<exists>a. args0 = Some a \<and> g_hash_table_size a = 0)"
  then show "status_code (lookup_callback ks msg args0) = 405"
    and "response_body (lookup_callback ks msg args0) =
            Some (HKP_ERROR_RESPONSE ''pks request had no query string'')"
    using lookup_callback_no_query [OF assms, of args0 ks] by simp_all
next
  fix args
  assume a: "args0 = Some args \<and> g_hash_table_size args \<noteq> 0"
  then have a0: "args0 = Some args" and sz: "g_hash_table_size args \<noteq> 0" by simp_all
  show "status_code (lookup_callback ks msg args0) = 200"
    unfolding a0 by (rule status_lookup_callback_query [OF assms sz])
  {
    assume "g_hash_table_lookup args ''op'' = None \<or> g_hash_table_lookup args ''op'' = Some []"
    then show "response_body (lookup_callback ks msg args0) =
               Some (HKP_ERROR_RESPONSE ''pks request did not include an <b>op</b> property'')"
      unfolding a0 by (rule lookup_callback_no_op [OF assms sz])
  }
  {
    fix t
    assume "g_hash_table_lookup args ''op'' = Some t \<and> t \<noteq> []
                \<and> g_ascii_strcasecmp t ''index'' \<noteq> 0 \<and> g_ascii_strcasecmp t ''vindex'' \<noteq> 0
                \<and> g_ascii_strcasecmp t ''get'' \<noteq> 0"
    then show "response_body (lookup_callback ks msg args0) =
               Some (HKP_ERROR_RESPONSE ''pks request had an invalid <b>op</b> property'')"
      unfolding a0 using lookup_callback_invalid_op [OF assms, of args t ks] by blast
  }
  {
    fix t verbose
    assume "g_hash_table_lookup args ''op'' = Some t
                \<and> ((g_ascii_strcasecmp t ''index'' = 0 \<and> \<not> verbose)
                    \<or> (g_ascii_strcasecmp t ''vindex'' = 0 \<and> verbose))"
    then have b: "response_body (lookup_callback ks msg args0) =
           response_body (snd (lookup_handle_index ks
             (soup_message_headers_append msg ''Connection'' ''close'') args verbose))"
      unfolding a0 using lookup_callback_index_body [OF assms, of args t verbose ks] by blast
    note e = lookup_handle_index_errors
               [of args ks "soup_message_headers_append msg ''Connection'' ''close''" verbose]
    {
      assume "g_hash_table_lookup args ''search'' = None
              \<or> g_hash_table_lookup args ''search'' = Some []"
      then show "response_body (lookup_callback ks msg args0) =
                  Some (HKP_ERROR_RESPONSE
                          ''pks request did not include a <b>search</b> property'')"
        unfolding b using e by blast
    }
    {
      fix search
      assume "g_hash_table_lookup args ''search'' = Some search \<and> search \<noteq> []
                    \<and> op_keylist_start ks verbose search \<noteq> 0"
      then show "response_body (lookup_callback ks msg args0) =
                  Some (HKP_ERROR_RESPONSE ''Error retrieving key(s)'')"
        unfolding b using e by blast
    }
    {
      fix search
      assume "g_hash_table_lookup args ''search'' = Some search \<and> search \<noteq> []
                    \<and> op_keylist_start ks verbose search = 0
                    \<and> op_keylist_next ks verbose search = []"
      then show "response_body (lookup_callback ks msg args0) =
                  Some (HKP_ERROR_RESPONSE ''No matching keys in database'')"
        unfolding b using e by blast
    }
  }
  {
    fix t
    assume "g_hash_table_lookup args ''op'' = Some t \<and> g_ascii_strcasecmp t ''get'' = 0"
    then have b: "response_body (lookup_callback ks msg args0) =
           response_body (snd (lookup_handle_get ks
             (soup_message_headers_append msg ''Connection'' ''close'') args))"
      unfolding a0 using lookup_callback_get_body [OF assms, of args t ks] by blast
    note e = lookup_handle_get_errors
               [of args ks "soup_message_headers_append msg ''Connection'' ''close''"]
    {
      assume "g_hash_table_lookup args ''search'' = None
              \<or> g_hash_table_lookup args ''search'' = Some []"
      then show "response_body (lookup_callback ks msg args0) =
                  Some (HKP_ERROR_RESPONSE
                          ''pks request did not include a <b>search</b> property'')"
        unfolding b using e by blast
    }
    {
      fix search
      assume s: "g_hash_table_lookup args ''search'' = Some search \<and> search \<noteq> []"
      {
        assume "data_new ks \<noteq> 0"
        then show "response_body (lookup_callback ks msg args0) =
                       Some (HKP_ERROR_RESPONSE ''Internal error'')"
          unfolding b using e s by blast
      }
      {
        assume "data_new ks = 0 \<and> op_export ks search \<noteq> 0"
        then show "response_body (lookup_callback ks msg args0) =
                       Some (HKP_ERROR_RESPONSE ''Error retrieving key(s)'')"
          unfolding b using e s by blast
      }
      {
        assume "data_new ks = 0 \<and> op_export ks search = 0
                      \<and> (data_release_and_get_mem ks search = None
                          \<or> data_release_and_get_mem ks search = Some [])"
        then show "response_body (lookup_callback ks msg args0) =
                       Some (HKP_ERROR_RESPONSE ''No matching key in database'')"
          unfolding b using e s by blast
      }
    }
  }
qed


theorem lookup_status_codes_witness:
  "status_code (lookup_callback sample_empty_keystore sample_get_request None) = 405
   \<and> response_body (lookup_callback sample_empty_keystore sample_get_request None) =
       Some (HKP_ERROR_RESPONSE ''pks request had no query string'')
   \<and> status_code (lookup_callback sample_empty_keystore sample_get_request
         (Some [(''search'', ''alice'')])) = 200
   \<and> response_body (lookup_callback sample_empty_keystore sample_get_request
         (Some [(''search'', ''alice'')])) =
       Some (HKP_ERROR_RESPONSE ''pks request did not include an <b>op</b> property'')"
proof -
  have g: "request_method sample_get_request = SOUP_METHOD_GET"
    by (simp add: sample_get_request_def SOUP_METHOD_GET_def)
  have sz: "g_hash_table_size [(''search'', ''alice'')] \<noteq> 0"
    by (simp add: g_hash_table_size_def)
  have op: "g_hash_table_lookup [(''search'', ''alice'')] ''op'' = None"
    by (simp add: g_hash_table_lookup_def)
  from lookup_status_codes [OF g, of None sample_empty_keystore]
  have "status_code (lookup_callback sample_empty_keystore sample_get_request None) = 405
   \<and> response_body (lookup_callback sample_empty_keystore sample_get_request None) =
       Some (HKP_ERROR_RESPONSE ''pks request had no query string'')"
    by blast
  moreover from lookup_status_codes [OF g, of "Some [(''search'', ''alice'')]" sample_empty_keystore]
    sz op
  have "status_code (lookup_callback sample_empty_keystore sample_get_request
         (Some [(''search'', ''alice'')])) = 200
   \<and> response_body (lookup_callback sample_empty_keystore sample_get_request
         (Some [(''search'', ''alice'')])) =
       Some (HKP_ERROR_RESPONSE ''pks request did not include an <b>op</b> property'')"
    by blast
  ultimately show ?thesis by blast
qed

subsection \<open>The index scenario\<close>

lemma gmtime_ymd_same_day: "a div 86400 = b div 86400 \<Longrightarrow> gmtime_ymd a = gmtime_ymd b"
  by (simp only: gmtime_ymd_def)

lemma strftime_Ymd_2020_01_15:
  assumes "1579046400 \<le> ts" and "ts < 1579132800"
  shows "strftime_Ymd ts = ''2020/01/15''"
proof -
  have "ts div 86400 = 18276" using assms by linarith
  moreover have "(1579046400 :: int) div 86400 = 18276" by simp
  ultimately have "gmtime_ymd ts = gmtime_ymd 1579046400"
    by (intro gmtime_ymd_same_day) (simp only:)
  moreover have "strftime_Ymd 1579046400 = ''2020/01/15''" by code_simp
  ultimately show ?thesis by (simp only: strftime_Ymd_def)
qed

lemma printf_space_5d_2048:
  "printf_space_5d (sint (2048 :: 32 word)) = '' 2048''" "printf_space_5d 2048 = '' 2048''"
  by code_simp+

lemma last_x_fpr: "last_x ''AAAA1111BBBB2222'' 8 = ''BBBB2222''"
  by (simp add: last_x_def)

lemma alice_key_info:
  assumes "1579046400 \<le> ts" and "ts < 1579132800"
    and "algo = GPGME_PK_RSA \<or> algo = GPGME_PK_RSA_E \<or> algo = GPGME_PK_RSA_S"
  shows \<open>append_key_info response
           \<lparr>revoked = False,
            subkeys = [\<lparr>pubkey_algo = algo, sk_length = 2048,
                        fpr = ''AAAA1111BBBB2222'', timestamp = ts\<rparr>],
            uids = [\<lparr>uid_name = Some ''Alice'', uid_email = None, signatures = sigs\<rparr>]\<rparr>
           False False =
         response @
         ''pub  2048R/<a href="/pks/lookup?op=get&search=0xBBBB2222">BBBB2222</a> 2020/01/15 Alice '' @
         CRLF\<close>
proof -
  have l: "get_key_algo_letter
           \<lparr>revoked = False,
            subkeys = [\<lparr>pubkey_algo = algo, sk_length = 2048,
                        fpr = ''AAAA1111BBBB2222'', timestamp = ts\<rparr>],
            uids = [\<lparr>uid_name = Some ''Alice'', uid_email = None, signatures = sigs\<rparr>]\<rparr> = ''R''"
    using assms(3) by (auto simp: get_key_algo_letter_def)
  have u: "format_key_uid (Some ''Alice'') ''AAAA1111BBBB2222'' None = ''Alice ''"
    by (simp add: format_key_uid_def HKP_INDEX_UIDNAME_def)
  show ?thesis
    by (simp add: append_key_info_def l u HKP_INDEX_KEY_LINE_def printf_space_5d_2048
          last_x_fpr strftime_Ymd_2020_01_15 [OF assms(1,2)])
qed

lemma alice_index_body:
  assumes "request_method msg = SOUP_METHOD_GET"
    and "1579046400 \<le> ts" and "ts < 1579132800"
    and "algo = GPGME_PK_RSA \<or> algo = GPGME_PK_RSA_E \<or> algo = GPGME_PK_RSA_S"
    and "op_keylist_start ks False ''alice'' = 0"
    and "op_keylist_next ks False ''alice'' =
           [\<lparr>revoked = False,
             subkeys = [\<lparr>pubkey_algo = algo, sk_length = 2048,
                         fpr = ''AAAA1111BBBB2222'', timestamp = ts\<rparr>],
             uids = [\<lparr>uid_name = Some ''Alice'', uid_email = None, signatures = sigs\<rparr>]\<rparr>]"
  shows "response_body (lookup_callback ks msg (Some sample_alice_args)) =
           Some (HKP_INDEX_PREFIX ''alice'' ''alice'' @ sample_alice_line @ CRLF @ HKP_INDEX_SUFFIX)"
proof -
  let ?msg = "soup_message_headers_append msg ''Connection'' ''close''"
  let ?resp = "HKP_INDEX_PREFIX ''alice'' ''alice'' @ sample_alice_line @ CRLF @ HKP_INDEX_SUFFIX"
  have op: "g_hash_table_lookup sample_alice_args ''op'' = Some ''index''"
    and se: "g_hash_table_lookup sample_alice_args ''search'' = Some ''alice''"
    and fp: "g_hash_table_lookup sample_alice_args ''fingerprint'' = None"
    by (simp_all add: sample_alice_args_def g_hash_table_lookup_def)
  have c: "(g_ascii_strcasecmp ''index'' ''index'' = 0 \<and> \<not> False)
         \<or> (g_ascii_strcasecmp ''index'' ''vindex'' = 0 \<and> False)" by code_simp
  have ne: "op_keylist_next ks False ''alice'' \<noteq> []" by (simp add: assms(6))
  have al: "''alice'' \<noteq> []" by simp
  have k: "fst (keylist_loop False False ''alice'' (op_keylist_next ks False ''alice'') [] False)
             @ HKP_INDEX_SUFFIX = ?resp"
    by (simp add: assms(6) Let_def alice_key_info [OF assms(2-4)] sample_alice_line_def)
  have "CHR 0x00 \<notin> set ?resp"
    by (simp add: HKP_INDEX_PREFIX_def sample_alice_line_def CRLF_def HKP_INDEX_SUFFIX_def)
  then have len: "strlen ?resp = length ?resp" by (rule strlen_no_nul)
  have "response_body (lookup_callback ks msg (Some sample_alice_args)) =
          response_body (snd (lookup_handle_index ks ?msg sample_alice_args False))"
    by (rule lookup_callback_index_body [OF assms(1) op c])
  also have "\<dots> = Some (take (strlen ?resp) ?resp)"
    unfolding lookup_handle_index_some [OF se al assms(5) ne] fp Let_def option.case k
    by simp
  finally show ?thesis by (simp only: len take_all order_refl)
qed

text \<open>
  Claim C9, as amended. The request \<^verbatim>\<open>GET /pks/lookup?op=index&search=alice\<close>, the
  keystore returning exactly one record that is not revoked, of 2048 bits, of an RSA
  algorithm, with the fingerprint \<^verbatim>\<open>AAAA1111BBBB2222\<close>, created on 2020-01-15 (UTC, any
  second of that day), with one user id named Alice: the status is 200 and the body
  contains the key line, where \<^verbatim>\<open>pub  2048R/\<close> is followed by the link to the get
  operation whose target and text are the last eight characters \<^verbatim>\<open>BBBB2222\<close> of the
  fingerprint, then the date \<^verbatim>\<open>2020/01/15\<close> and the name \<^verbatim>\<open>Alice\<close>.
\<close>

theorem alice_index_scenario:
  assumes "request_method msg = SOUP_METHOD_GET"
    and "1579046400 \<le> ts" and "ts < 1579132800"
    and "algo = GPGME_PK_RSA \<or> algo = GPGME_PK_RSA_E \<or> algo = GPGME_PK_RSA_S"
    and "op_keylist_start ks False ''alice'' = 0"
    and "op_keylist_next ks False ''alice'' =
           [\<lparr>revoked = False,
             subkeys = [\<lparr>pubkey_algo = algo, sk_length = 2048,
                         fpr = ''AAAA1111BBBB2222'', timestamp = ts\<rparr>],
             uids = [\<lparr>uid_name = Some ''Alice'', uid_email = None, signatures = sigs\<rparr>]\<rparr>]"
  shows \<open>status_code (lookup_callback ks msg (Some sample_alice_args)) = 200
         \<and> (\<exists>b. response_body (lookup_callback ks msg (Some sample_alice_args)) = Some b
               \<and> sublist
                   ''pub  2048R/<a href="/pks/lookup?op=get&search=0xBBBB2222">BBBB2222</a> 2020/01/15 Alice ''
                   b)\<close>
proof -
  have "g_hash_table_size sample_alice_args \<noteq> 0"
    by (simp add: sample_alice_args_def g_hash_table_size_def)
  then have "status_code (lookup_callback ks msg (Some sample_alice_args)) = 200"
    by (rule status_lookup_callback_query [OF assms(1)])
  moreover have "sublist sample_alice_line
      (HKP_INDEX_PREFIX ''alice'' ''alice'' @ sample_alice_line @ CRLF @ HKP_INDEX_SUFFIX)"
    by (rule sublist_appendI)
  ultimately show ?thesis
    using alice_index_body [OF assms] unfolding sample_alice_line_def by blast
qed

theorem alice_index_scenario_witness:
  \<open>status_code (lookup_callback sample_alice_keystore sample_get_request
       (Some sample_alice_args)) = 200
   \<and> (\<exists>b. response_body (lookup_callback sample_alice_keystore sample_get_request
              (Some sample_alice_args)) = Some b
         \<and> sublist
             ''pub  2048R/<a href="/pks/lookup?op=get&search=0xBBBB2222">BBBB2222</a> 2020/01/15 Alice ''
             b)\<close>
  using alice_index_scenario [of sample_get_request 1579046400 GPGME_PK_RSA sample_alice_keystore "[]"]
  by (simp add: sample_get_request_def sample_alice_keystore_def sample_alice_key_def
        SOUP_METHOD_GET_def)

text \<open>
  Claim C9, as stated, fails: the text \<^verbatim>\<open>pub  2048R/11BBBB2222\<close> is not in the body. The
  key id has eight characters, not ten, and the link markup stands between the slash
  and the key id.
\<close>

theorem alice_index_scenario_counterexample:
  "\<not> (\<exists>b. response_body (lookup_callback sample_alice_keystore sample_get_request
                (Some sample_alice_args)) = Some b
           \<and> sublist ''pub  2048R/11BBBB2222'' b)"
proof -
  have "response_body (lookup_callback sample_alice_keystore sample_get_request
                (Some sample_alice_args)) =
         Some (HKP_INDEX_PREFIX ''alice'' ''alice'' @ sample_alice_line @ CRLF @ HKP_INDEX_SUFFIX)"
    using alice_index_body [of sample_get_request 1579046400 GPGME_PK_RSA sample_alice_keystore "[]"]
    by (simp add: sample_get_request_def sample_alice_keystore_def sample_alice_key_def
          SOUP_METHOD_GET_def)
  moreover have "\<not> sublist ''pub  2048R/11BBBB2222''
         (HKP_INDEX_PREFIX ''alice'' ''alice'' @ sample_alice_line @ CRLF @ HKP_INDEX_SUFFIX)"
    by code_simp
  ultimately show ?thesis by simp
qed

subsection \<open>Revoked keys in the index\<close>

lemma append_sigs_append:
  "append_sigs response sigs = response @ append_sigs [] sigs"
proof (induction sigs arbitrary: response)
  case Nil
  show ?case by simp
next
  case (Cons sg sigs)
  show ?case
    using Cons.IH [of "response @ HKP_INDEX_SIG_LINE (last_x (sig_keyid sg) 8) (last_x (sig_keyid sg) 8)
          (format_key_uid (sig_name sg) (sig_keyid sg) (sig_email sg))"]
          Cons.IH [of "HKP_INDEX_SIG_LINE (last_x (sig_keyid sg) 8) (last_x (sig_keyid sg) 8)
          (format_key_uid (sig_name sg) (sig_keyid sg) (sig_email sg))"]
    by simp
qed

text \<open>The continuation lines of a revoked key: every one of them carries the marker.\<close>

lemma append_uids_revoked_rest:
  "revoked key \<Longrightarrow>
   append_uids key sk verbose fingerprints us False response =
     response @ concat (map (\<lambda>uid. HKP_INDEX_UID_LINE HKP_INDEX_REVOKED @
                                  (if verbose then append_sigs [] (signatures uid) else [])) us)"
proof (induction us arbitrary: response)
  case Nil
  show ?case by simp
next
  case (Cons uid us)
  show ?case
    using Cons.prems append_sigs_append [of "response @ HKP_INDEX_UID_LINE HKP_INDEX_REVOKED" "signatures uid"]
    by (simp add: Cons.IH [OF Cons.prems] Let_def)
qed

lemma append_key_info_revoked:
  assumes "revoked key" and "subkeys key = sk # sks" and "uids key \<noteq> []"
  shows "append_key_info response key verbose fingerprints =
     response @
     HKP_INDEX_KEY_LINE (sint (sk_length sk)) (get_key_algo_letter key)
       (last_x (fpr sk) 8) (last_x (fpr sk) 8) (strftime_Ymd (timestamp sk)) HKP_INDEX_REVOKED @
     (if fingerprints then HKP_INDEX_FPR_LINE (format_fpr_loop (fpr sk) 0 []) else []) @
     concat (map (\<lambda>uid. HKP_INDEX_UID_LINE HKP_INDEX_REVOKED @
                          (if verbose then append_sigs [] (signatures uid) else [])) (uids key))"
proof -
  obtain uid us where u: "uids key = uid # us" using assms(3) by (cases "uids key") auto
  show ?thesis
    using assms(1,2) append_uids.simps(2) [of key sk verbose fingerprints uid us True response]
    by (simp add: append_key_info_def u Let_def append_uids_revoked_rest [OF assms(1)]
          format_key_fingerprint_def del: append_uids.simps)
qed

text \<open>
  Claim C1 says that a revoked key shows the marker on its first line only and the
  real identities on the continuation lines. The loop does not do that:
  \<^verbatim>\<open>uidpart\<close> is the marker in every round of a revoked key, not only in the first
  (\<open>append_key_info_revoked\<close>). On the revoked sample key with the user ids Alice and
  Bob the output is the key line with the marker and two continuation lines with the
  marker; the name Bob is nowhere in it. The same key, not revoked, shows Alice on the
  key line and Bob on the continuation line.
\<close>

theorem revoked_key_continuation_lines:
  "append_key_info [] sample_revoked_key False False =
     HKP_INDEX_KEY_LINE 1024 ''D'' ''89ABCDEF'' ''89ABCDEF'' ''1970/01/01'' ''*** KEY REVOKED ***'' @
     HKP_INDEX_UID_LINE ''*** KEY REVOKED ***'' @
     HKP_INDEX_UID_LINE ''*** KEY REVOKED ***''
   \<and> \<not> sublist ''Bob'' (append_key_info [] sample_revoked_key False False)
   \<and> append_key_info [] (sample_revoked_key\<lparr>revoked := False\<rparr>) False False =
     HKP_INDEX_KEY_LINE 1024 ''D'' ''89ABCDEF'' ''89ABCDEF'' ''1970/01/01'' ''Alice '' @
     HKP_INDEX_UID_LINE ''Bob ''"
proof (intro conjI)
  show "append_key_info [] sample_revoked_key False False =
     HKP_INDEX_KEY_LINE 1024 ''D'' ''89ABCDEF'' ''89ABCDEF'' ''1970/01/01'' ''*** KEY REVOKED ***'' @
     HKP_INDEX_UID_LINE ''*** KEY REVOKED ***'' @
     HKP_INDEX_UID_LINE ''*** KEY REVOKED ***''"
    by code_simp
  show "\<not> sublist ''Bob'' (append_key_info [] sample_revoked_key False False)"
    by code_simp
  show "append_key_info [] (sample_revoked_key\<lparr>revoked := False\<rparr>) False False =
     HKP_INDEX_KEY_LINE 1024 ''D'' ''89ABCDEF'' ''89ABCDEF'' ''1970/01/01'' ''Alice '' @
     HKP_INDEX_UID_LINE ''Bob ''"
    by code_simp
qed

subsection \<open>Publishing\<close>

lemma stop_publishing_trace:
  "trace (stop_publishing errmsg s) =
     trace s
     @ (case avahi_group s of None \<Rightarrow> [] | Some g \<Rightarrow> [Avahi_entry_group_free g])
     @ (case avahi_client s of None \<Rightarrow> [] | Some c \<Rightarrow> [Avahi_client_free c])
     @ (if errmsg
        then [Show_error ''Couldn't share keys''
                ''Can't publish discovery information on the network.'']
        else [])"
  by (simp add: stop_publishing_def emit_def Let_def split: option.split)

lemma stop_publishing_poll:
  "avahi_poll (stop_publishing errmsg s) = avahi_poll s
   \<and> share_alternate (stop_publishing errmsg s) = share_alternate s"
  by (simp add: stop_publishing_def emit_def Let_def split: option.split)

lemma calc_share_name_zero:
  "share_alternate s = 0 \<Longrightarrow> calc_share_name w s = s\<lparr>share_name := Some (base_share_name w)\<rparr>"
  by (simp add: calc_share_name_def Let_def)

lemma start_publishing_result:
  "snd (start_publishing w s) =
     (let poll = (case avahi_poll s of Some p \<Rightarrow> Some p | None \<Rightarrow> avahi_glib_poll_new w)
      in s\<lparr>share_alternate := 0,
            share_name := Some (base_share_name w),
            avahi_poll := poll,
            avahi_client := avahi_client_new w poll,
            trace := trace s
              @ (case avahi_poll s of
                   Some p \<Rightarrow> []
                 | None \<Rightarrow>
                     Avahi_glib_poll_new #
                     (if avahi_glib_poll_new w = None
                      then [G_warning ''couldn't initialize avahi glib poll integration'']
                      else []))
              @ [Avahi_client_new poll]\<rparr>)"
  by (cases "avahi_poll s"; cases "avahi_glib_poll_new w")
     (simp_all add: start_publishing_def dns_sd_get_poll_def calc_share_name_zero emit_def Let_def)

text \<open>
  Claim C5. When the client callback is called with the state Failure (for the current
  client, as the assertion of the callback demands), the callback returns, and
  \<^item> the manager is torn down first: in the state \<open>t\<close> after \<^verbatim>\<open>stop_publishing\<close> the
    group, the client and the share name are \<^verbatim>\<open>NULL\<close>, and the trace shows the group
    and the client freed if they existed;
  \<^item> the error dialog is shown if and only if the error of the client is not
    \<^verbatim>\<open>AVAHI_ERR_DISCONNECTED\<close>;
  \<^item> then comes \<^verbatim>\<open>sleep (1)\<close> and then, in every case, \<^verbatim>\<open>start_publishing\<close>: the
    collision number is 0, the share name is the freshly computed base name, there is
    no group, and the client is the one that \<^verbatim>\<open>avahi_client_new\<close> returns.
\<close>

theorem client_failure_restarts:
  assumes "avahi_client s = None \<or> avahi_client s = Some client"
  shows "\<exists>t s'.
     client_callback w client AVAHI_CLIENT_FAILURE s = Some s'
     \<and> s' = snd (start_publishing w (emit (Sleep 1) t))
     \<and> avahi_group t = None \<and> avahi_client t = None \<and> share_name t = None
     \<and> trace t = trace s
         @ (if avahi_client_errno w client \<noteq> AVAHI_ERR_DISCONNECTED
            then [G_warning ''failure talking with avahi''] else [])
         @ (case avahi_group s of None \<Rightarrow> [] | Some g \<Rightarrow> [Avahi_entry_group_free g])
         @ (case avahi_client s of None \<Rightarrow> [] | Some c \<Rightarrow> [Avahi_client_free c])
         @ (if avahi_client_errno w client \<noteq> AVAHI_ERR_DISCONNECTED
            then [Show_error ''Couldn't share keys''
                    ''Can't publish discovery information on the network.'']
            else [])
     \<and> trace s' = trace t @ [Sleep 1]
         @ (case avahi_poll s of
              Some p \<Rightarrow> []
            | None \<Rightarrow>
                Avahi_glib_poll_new #
                (if avahi_glib_poll_new w = None
                 then [G_warning ''couldn't initialize avahi glib poll integration'']
                 else []))
         @ [Avahi_client_new
              (case avahi_poll s of Some p \<Rightarrow> Some p | None \<Rightarrow> avahi_glib_poll_new w)]
     \<and> share_alternate s' = 0
     \<and> share_name s' = Some (base_share_name w)
     \<and> avahi_group s' = None
     \<and> avahi_client s' =
         avahi_client_new w
           (case avahi_poll s of Some p \<Rightarrow> Some p | None \<Rightarrow> avahi_glib_poll_new w)"
proof -
  let ?errmsg = "avahi_client_errno w client \<noteq> AVAHI_ERR_DISCONNECTED"
  define s1 where "s1 = (if ?errmsg then emit (G_warning ''failure talking with avahi'') s else s)"
  define t where "t = stop_publishing ?errmsg s1"
  define s' where "s' = snd (start_publishing w (emit (Sleep 1) t))"
  have cb: "client_callback w client AVAHI_CLIENT_FAILURE s = Some s'"
    using assms by (simp add: client_callback_def Let_def s'_def t_def s1_def)
  have h: "avahi_group t = None \<and> avahi_client t = None \<and> share_name t = None"
    unfolding t_def by (rule stop_publishing_handles)
  have s1: "avahi_group s1 = avahi_group s" "avahi_client s1 = avahi_client s"
    "avahi_poll s1 = avahi_poll s"
    "trace s1 = trace s @ (if ?errmsg then [G_warning ''failure talking with avahi''] else [])"
    by (simp_all add: emit_def s1_def)
  have tt: "trace t = trace s
         @ (if ?errmsg then [G_warning ''failure talking with avahi''] else [])
         @ (case avahi_group s of None \<Rightarrow> [] | Some g \<Rightarrow> [Avahi_entry_group_free g])
         @ (case avahi_client s of None \<Rightarrow> [] | Some c \<Rightarrow> [Avahi_client_free c])
         @ (if ?errmsg
            then [Show_error ''Couldn't share keys''
                    ''Can't publish discovery information on the network.'']
            else [])"
    unfolding t_def stop_publishing_trace s1 by simp
  have tp: "avahi_poll t = avahi_poll s"
    using stop_publishing_poll [of ?errmsg s1] s1(3) by (simp add: t_def)
  define u where "u = emit (Sleep 1) t"
  have e: "avahi_poll u = avahi_poll s" "avahi_group u = None" "trace u = trace t @ [Sleep 1]"
    using tp h by (simp_all add: emit_def u_def)
  have f: "trace s' = trace t @ [Sleep 1]
         @ (case avahi_poll s of
              Some p \<Rightarrow> []
            | None \<Rightarrow>
                Avahi_glib_poll_new #
                (if avahi_glib_poll_new w = None
                 then [G_warning ''couldn't initialize avahi glib poll integration'']
                 else []))
         @ [Avahi_client_new
              (case avahi_poll s of Some p \<Rightarrow> Some p | None \<Rightarrow> avahi_glib_poll_new w)]"
    "share_alternate s' = 0" "share_name s' = Some (base_share_name w)"
    "avahi_group s' = None"
    "avahi_client s' =
         avahi_client_new w
           (case avahi_poll s of Some p \<Rightarrow> Some p | None \<Rightarrow> avahi_glib_poll_new w)"
    unfolding s'_def u_def [symmetric] start_publishing_result Let_def by (simp_all add: e)
  have "s' = snd (start_publishing w (emit (Sleep 1) t))" by (rule s'_def)
  then show ?thesis
    using cb h tt f by blast
qed


theorem client_failure_restarts_witness:
  "\<exists>s'. client_callback sample_world 4 AVAHI_CLIENT_FAILURE sample_daemon = Some s'
     \<and> trace s' =
         [G_warning ''failure talking with avahi'', Avahi_entry_group_free 3,
          Avahi_client_free 4,
          Show_error ''Couldn't share keys''
            ''Can't publish discovery information on the network.'',
          Sleep 1, Avahi_client_new (Some 5)]
     \<and> share_alternate s' = 0
     \<and> share_name s' = Some (''Alice'' @ [CHR 0x27] @ ''s encryption keys'')
     \<and> avahi_group s' = None
     \<and> avahi_client s' = Some 6"
proof -
  have b: "base_share_name sample_world = ''Alice'' @ [CHR 0x27] @ ''s encryption keys''"
    by (simp add: base_share_name_def sample_world_def)
  have a: "avahi_client sample_daemon = None \<or> avahi_client sample_daemon = Some 4"
    by (simp add: sample_daemon_def)
  have w: "avahi_client_errno sample_world 4 \<noteq> AVAHI_ERR_DISCONNECTED"
    "avahi_client_new sample_world (Some 5) = Some 6"
    by (simp_all add: sample_world_def AVAHI_ERR_DISCONNECTED_def)
  have d: "avahi_group sample_daemon = Some 3" "avahi_client sample_daemon = Some 4"
    "avahi_poll sample_daemon = Some 5" "trace sample_daemon = []"
    by (simp_all add: sample_daemon_def)
  note r = client_failure_restarts [OF a, of sample_world, unfolded b d]
  show ?thesis using r w by clarsimp
qed

subsection \<open>Collisions of the service name\<close>

lemma emit_fields:
  "trace (emit e s) = trace s @ [e]" "avahi_group (emit e s) = avahi_group s"
  "avahi_client (emit e s) = avahi_client s" "share_name (emit e s) = share_name s"
  "share_alternate (emit e s) = share_alternate s" "soup_server (emit e s) = soup_server s"
  by (simp_all add: emit_def)

lemma calc_share_name_fields:
  "trace (calc_share_name w s) = trace s" "avahi_group (calc_share_name w s) = avahi_group s"
  "avahi_client (calc_share_name w s) = avahi_client s"
  "share_alternate (calc_share_name w s) = share_alternate s"
  "soup_server (calc_share_name w s) = soup_server s"
  "share_name (calc_share_name w s) =
     Some (if share_alternate s \<noteq> 0
           then base_share_name w @ '' #'' @ printf_d (sint (share_alternate s))
           else base_share_name w)"
  by (simp_all add: calc_share_name_def Let_def)

text \<open>\<^verbatim>\<open>add_service\<close> when Avahi accepts the record and the commit.\<close>

lemma add_service_ok:
  assumes "avahi_group s = Some g" and "share_name s = Some name"
    and "0 \<le> avahi_entry_group_add_service w g name HKP_SERVICE_TYPE
               (seahorse_hkp_server_get_port w s)"
    and "0 \<le> avahi_entry_group_commit w g"
  shows "add_service w s =
     Some (emit (Avahi_entry_group_commit g)
            (emit (Avahi_entry_group_add_service g name HKP_SERVICE_TYPE
                     (seahorse_hkp_server_get_port w s)) s))"
  using assms by (simp add: add_service_def Let_def)

text \<open>\<^verbatim>\<open>add_service\<close> when Avahi refuses the record: the manager is torn down.\<close>

lemma add_service_refused:
  assumes "avahi_group s = Some g" and "share_name s = Some name"
    and "avahi_entry_group_add_service w g name HKP_SERVICE_TYPE
               (seahorse_hkp_server_get_port w s) < 0"
  shows "add_service w s =
     Some (stop_publishing True
            (emit (G_warning ''failed to register _pgpkey-hkp._tcp service'')
              (emit (Avahi_entry_group_add_service g name HKP_SERVICE_TYPE
                       (seahorse_hkp_server_get_port w s)) s)))"
  using assms by (simp add: add_service_def Let_def)

lemma sint_of_nat_32: "n < 2 ^ 31 \<Longrightarrow> sint (of_nat n :: 32 word) = int n"
proof -
  assume n: "n < 2 ^ 31"
  have "sint (of_nat n :: 32 word) = signed_take_bit 31 (int n)"
    by (simp add: signed_of_nat)
  also have "\<dots> = int n"
    using n by (intro signed_take_bit_int_eq_self) simp_all
  finally show ?thesis .
qed

lemma of_nat_32_nonzero: "0 < n \<Longrightarrow> n < 2 ^ 31 \<Longrightarrow> (of_nat n :: 32 word) \<noteq> 0"
  by (rule of_nat_neq_0) simp_all

text \<open>The share name after \<open>n\<close> collisions.\<close>

lemma calc_share_name_numbered:
  assumes "share_alternate s = of_nat n" and "0 < n" and "n < 2 ^ 31"
  shows "share_name (calc_share_name w s) = Some (base_share_name w @ '' #'' @ digits n)"
  using assms
  by (simp add: calc_share_name_fields of_nat_32_nonzero sint_of_nat_32 printf_d_def)

lemma seahorse_hkp_server_get_port_cong:
  "soup_server s = soup_server s' \<Longrightarrow>
   seahorse_hkp_server_get_port w s = seahorse_hkp_server_get_port w s'"
  by (simp add: seahorse_hkp_server_get_port_def)

text \<open>\<^verbatim>\<open>add_service\<close> when Avahi accepts the record and refuses the commit.\<close>

lemma add_service_commit_refused:
  assumes "avahi_group s = Some g" and "share_name s = Some name"
    and "0 \<le> avahi_entry_group_add_service w g name HKP_SERVICE_TYPE
               (seahorse_hkp_server_get_port w s)"
    and "avahi_entry_group_commit w g < 0"
  shows "add_service w s =
     Some (stop_publishing True
            (emit (G_warning ''failed to register _pgpkey-hkp._tcp service'')
              (emit (Avahi_entry_group_commit g)
                (emit (Avahi_entry_group_add_service g name HKP_SERVICE_TYPE
                         (seahorse_hkp_server_get_port w s)) s))))"
  using assms by (simp add: add_service_def Let_def)

text \<open>
  The state in which \<^verbatim>\<open>services_callback\<close> calls \<^verbatim>\<open>add_service\<close> after a collision, the
  collision number being \<open>n\<close> before it.
\<close>

lemma services_callback_collision_step:
  assumes "avahi_group s = Some g" and "share_alternate s = of_nat n" and "Suc n < 2 ^ 31"
  shows "\<exists>s2. services_callback w g AVAHI_ENTRY_GROUP_COLLISION s = add_service w s2
     \<and> avahi_group s2 = Some g \<and> avahi_client s2 = avahi_client s
     \<and> soup_server s2 = soup_server s
     \<and> share_name s2 = Some (base_share_name w @ '' #'' @ digits (Suc n))
     \<and> share_alternate s2 = of_nat (Suc n)
     \<and> trace s2 = trace s @ [G_warning (''naming collision trying new name: '' @
                                base_share_name w @ '' #'' @ digits (Suc n))]"
proof -
  let ?name = "base_share_name w @ '' #'' @ digits (Suc n)"
  define s0 where "s0 = s\<lparr>share_alternate := share_alternate s + 1\<rparr>"
  define s1 where "s1 = calc_share_name w s0"
  define s2 where "s2 = emit (G_warning (''naming collision trying new name: '' @
                            (case share_name s1 of None \<Rightarrow> ''(null)'' | Some n \<Rightarrow> n))) s1"
  have cb: "services_callback w g AVAHI_ENTRY_GROUP_COLLISION s = add_service w s2"
    using assms(1) by (simp add: services_callback_def Let_def s2_def s1_def s0_def)
  have a0: "share_alternate s0 = of_nat (Suc n)"
    by (simp add: s0_def assms(2))
  have f0: "avahi_group s0 = Some g" "avahi_client s0 = avahi_client s"
    "soup_server s0 = soup_server s" "trace s0 = trace s"
    by (simp_all add: s0_def assms(1))
  have n1: "share_name s1 = Some ?name"
    unfolding s1_def by (rule calc_share_name_numbered [OF a0 _ assms(3)]) simp
  have f1: "avahi_group s1 = Some g" "avahi_client s1 = avahi_client s"
    "soup_server s1 = soup_server s" "trace s1 = trace s"
    "share_alternate s1 = of_nat (Suc n)"
    by (simp_all add: s1_def calc_share_name_fields f0 a0)
  have f2: "avahi_group s2 = Some g" "avahi_client s2 = avahi_client s"
    "soup_server s2 = soup_server s" "share_name s2 = Some ?name"
    "share_alternate s2 = of_nat (Suc n)"
    "trace s2 = trace s @ [G_warning (''naming collision trying new name: '' @ ?name)]"
    by (simp_all add: s2_def emit_fields f1 n1)
  show ?thesis using cb f2 by blast
qed

lemma services_callback_collision_ok:
  assumes "avahi_group s = Some g" and "share_alternate s = of_nat n" and "Suc n < 2 ^ 31"
    and "0 \<le> avahi_entry_group_add_service w g (base_share_name w @ '' #'' @ digits (Suc n))
               HKP_SERVICE_TYPE (seahorse_hkp_server_get_port w s)"
    and "0 \<le> avahi_entry_group_commit w g"
  shows "\<exists>s'. services_callback w g AVAHI_ENTRY_GROUP_COLLISION s = Some s'
     \<and> share_alternate s' = of_nat (Suc n)
     \<and> share_name s' = Some (base_share_name w @ '' #'' @ digits (Suc n))
     \<and> avahi_group s' = Some g \<and> avahi_client s' = avahi_client s
     \<and> soup_server s' = soup_server s
     \<and> trace s' = trace s @
         [G_warning (''naming collision trying new name: '' @
                     base_share_name w @ '' #'' @ digits (Suc n)),
          Avahi_entry_group_add_service g (base_share_name w @ '' #'' @ digits (Suc n))
            HKP_SERVICE_TYPE (seahorse_hkp_server_get_port w s),
          Avahi_entry_group_commit g]"
proof -
  let ?name = "base_share_name w @ '' #'' @ digits (Suc n)"
  from services_callback_collision_step [OF assms(1-3), of w]
  obtain s2 where cb: "services_callback w g AVAHI_ENTRY_GROUP_COLLISION s = add_service w s2"
    and f2: "avahi_group s2 = Some g" "avahi_client s2 = avahi_client s"
    "soup_server s2 = soup_server s" "share_name s2 = Some ?name"
    "share_alternate s2 = of_nat (Suc n)"
    "trace s2 = trace s @ [G_warning (''naming collision trying new name: '' @ ?name)]"
    by blast
  have p: "seahorse_hkp_server_get_port w s2 = seahorse_hkp_server_get_port w s"
    by (rule seahorse_hkp_server_get_port_cong) (rule f2(3))
  have ok: "0 \<le> avahi_entry_group_add_service w g ?name HKP_SERVICE_TYPE
               (seahorse_hkp_server_get_port w s2)"
    unfolding p by (rule assms(4))
  note r = add_service_ok [OF f2(1) f2(4) ok assms(5), unfolded p]
  show ?thesis
    unfolding cb r by (simp add: emit_fields f2)
qed

lemma services_callback_collision_refused:
  assumes "avahi_group s = Some g" and "share_alternate s = of_nat n" and "Suc n < 2 ^ 31"
    and "avahi_entry_group_add_service w g (base_share_name w @ '' #'' @ digits (Suc n))
               HKP_SERVICE_TYPE (seahorse_hkp_server_get_port w s) < 0
         \<or> avahi_entry_group_commit w g < 0"
  shows "\<exists>t. services_callback w g AVAHI_ENTRY_GROUP_COLLISION s = Some t
     \<and> share_name t = None \<and> avahi_group t = None \<and> avahi_client t = None
     \<and> trace t = trace s @
         [G_warning (''naming collision trying new name: '' @
                     base_share_name w @ '' #'' @ digits (Suc n)),
          Avahi_entry_group_add_service g (base_share_name w @ '' #'' @ digits (Suc n))
            HKP_SERVICE_TYPE (seahorse_hkp_server_get_port w s)]
         @ (if 0 \<le> avahi_entry_group_add_service w g
                      (base_share_name w @ '' #'' @ digits (Suc n))
                      HKP_SERVICE_TYPE (seahorse_hkp_server_get_port w s)
            then [Avahi_entry_group_commit g] else [])
         @ [G_warning ''failed to register _pgpkey-hkp._tcp service'',
            Avahi_entry_group_free g]
         @ (case avahi_client s of None \<Rightarrow> [] | Some c \<Rightarrow> [Avahi_client_free c])
         @ [Show_error ''Couldn't share keys''
              ''Can't publish discovery information on the network.'']"
proof -
  let ?name = "base_share_name w @ '' #'' @ digits (Suc n)"
  from services_callback_collision_step [OF assms(1-3), of w]
  obtain s2 where cb: "services_callback w g AVAHI_ENTRY_GROUP_COLLISION s = add_service w s2"
    and f2: "avahi_group s2 = Some g" "avahi_client s2 = avahi_client s"
    "soup_server s2 = soup_server s" "share_name s2 = Some ?name"
    "share_alternate s2 = of_nat (Suc n)"
    "trace s2 = trace s @ [G_warning (''naming collision trying new name: '' @ ?name)]"
    by blast
  have p: "seahorse_hkp_server_get_port w s2 = seahorse_hkp_server_get_port w s"
    by (rule seahorse_hkp_server_get_port_cong) (rule f2(3))
  show ?thesis
  proof (cases "avahi_entry_group_add_service w g ?name HKP_SERVICE_TYPE
                  (seahorse_hkp_server_get_port w s) < 0")
    case True
    then have neg: "avahi_entry_group_add_service w g ?name HKP_SERVICE_TYPE
                  (seahorse_hkp_server_get_port w s2) < 0" unfolding p .
    note r = add_service_refused [OF f2(1) f2(4) neg, unfolded p]
    show ?thesis
      unfolding cb r using True
      by (simp add: stop_publishing_handles stop_publishing_trace emit_fields f2)
  next
    case False
    then have ok: "0 \<le> avahi_entry_group_add_service w g ?name HKP_SERVICE_TYPE
                  (seahorse_hkp_server_get_port w s2)" unfolding p by simp
    from False assms(4) have c: "avahi_entry_group_commit w g < 0" by blast
    note r = add_service_commit_refused [OF f2(1) f2(4) ok c, unfolded p]
    show ?thesis
      unfolding cb r using False
      by (simp add: stop_publishing_handles stop_publishing_trace emit_fields f2)
  qed
qed

lemma collisions_ok:
  assumes "avahi_group s = Some g" and "share_alternate s = 0"
    and "0 \<le> avahi_entry_group_commit w g"
  shows "n < 2 ^ 31 \<Longrightarrow>
     \<forall>k. 1 \<le> k \<and> k \<le> n \<longrightarrow>
         0 \<le> avahi_entry_group_add_service w g (base_share_name w @ '' #'' @ digits k)
               HKP_SERVICE_TYPE (seahorse_hkp_server_get_port w s) \<Longrightarrow>
     \<exists>sn. collisions w g n s = Some sn \<and> share_alternate sn = of_nat n
        \<and> avahi_group sn = Some g \<and> avahi_client sn = avahi_client s
        \<and> soup_server sn = soup_server s"
proof (induction n)
  case 0
  show ?case by (simp add: assms(1,2))
next
  case (Suc n)
  then have "n < 2 ^ 31" by simp
  moreover have "\<forall>k. 1 \<le> k \<and> k \<le> n \<longrightarrow>
         0 \<le> avahi_entry_group_add_service w g (base_share_name w @ '' #'' @ digits k)
               HKP_SERVICE_TYPE (seahorse_hkp_server_get_port w s)"
    using Suc.prems(2) by simp
  ultimately obtain sn where sn: "collisions w g n s = Some sn" "share_alternate sn = of_nat n"
    "avahi_group sn = Some g" "avahi_client sn = avahi_client s" "soup_server sn = soup_server s"
    using Suc.IH by blast
  have p: "seahorse_hkp_server_get_port w sn = seahorse_hkp_server_get_port w s"
    by (rule seahorse_hkp_server_get_port_cong) (rule sn(5))
  have ok: "0 \<le> avahi_entry_group_add_service w g (base_share_name w @ '' #'' @ digits (Suc n))
               HKP_SERVICE_TYPE (seahorse_hkp_server_get_port w sn)"
    unfolding p using Suc.prems(2) by simp
  from services_callback_collision_ok [OF sn(3) sn(2) Suc.prems(1) ok assms(3)]
  obtain s' where "services_callback w g AVAHI_ENTRY_GROUP_COLLISION sn = Some s'"
    "share_alternate s' = of_nat (Suc n)" "avahi_group s' = Some g"
    "avahi_client s' = avahi_client sn" "soup_server s' = soup_server sn"
    by blast
  then show ?case by (simp add: sn)
qed

text \<open>
  Claim C4, as amended. First part: the manager has been started (collision number 0)
  and has its group \<open>g\<close>; \<open>N\<close> collision events of the group are delivered,
  \<open>1 \<le> N < 2^31\<close>, and Avahi accepts the \<open>N\<close> service records of the names with the
  numbers 1 to \<open>N\<close> and the commits. Then all \<open>N\<close> callbacks return; the \<open>N\<close>-th callback,
  entered in the state \<open>s1\<close> after \<open>N - 1\<close> collisions, leaves the share name equal to the
  base name followed by \<^verbatim>\<open> #N\<close>, and within that one call it logs the new name and
  registers the service record under that new name and commits it (the three events
  it adds to the trace), with the group and the client it had.
  Second part: when the callback of the \<open>M\<close>-th collision, entered with the group in the
  state \<open>q\<close> after \<open>M - 1\<close> collisions, has its service record or its commit refused, it
  still attempts the registration under the name with the number \<open>M\<close>, and the same
  call tears the manager down: the group and the client are freed, the share name is
  cleared and the error is shown.
\<close>

theorem collisions_rename:
  "(avahi_group s = Some g \<and> share_alternate s = 0 \<and> 1 \<le> N \<and> N < 2 ^ 31
     \<and> (\<forall>k. 1 \<le> k \<and> k \<le> N \<longrightarrow>
            0 \<le> avahi_entry_group_add_service w g (base_share_name w @ '' #'' @ digits k)
                  HKP_SERVICE_TYPE (seahorse_hkp_server_get_port w s))
     \<and> 0 \<le> avahi_entry_group_commit w g
    \<longrightarrow> (\<exists>s1 sN.
       collisions w g (N - 1) s = Some s1
     \<and> services_callback w g AVAHI_ENTRY_GROUP_COLLISION s1 = Some sN
     \<and> collisions w g N s = Some sN
     \<and> share_name sN = Some (base_share_name w @ '' #'' @ digits N)
     \<and> trace sN = trace s1 @
         [G_warning (''naming collision trying new name: '' @
                     base_share_name w @ '' #'' @ digits N),
          Avahi_entry_group_add_service g (base_share_name w @ '' #'' @ digits N)
            HKP_SERVICE_TYPE (seahorse_hkp_server_get_port w s),
          Avahi_entry_group_commit g]
     \<and> avahi_group sN = Some g \<and> avahi_client sN = avahi_client s))
   \<and> (collisions w g (M - 1) r = Some q \<and> avahi_group q = Some g
       \<and> share_alternate q = of_nat (M - 1) \<and> 1 \<le> M \<and> M < 2 ^ 31
       \<and> (avahi_entry_group_add_service w g (base_share_name w @ '' #'' @ digits M)
             HKP_SERVICE_TYPE (seahorse_hkp_server_get_port w q) < 0
           \<or> avahi_entry_group_commit w g < 0)
    \<longrightarrow> (\<exists>t.
       services_callback w g AVAHI_ENTRY_GROUP_COLLISION q = Some t
     \<and> collisions w g M r = Some t
     \<and> share_name t = None \<and> avahi_group t = None \<and> avahi_client t = None
     \<and> trace t = trace q @
         [G_warning (''naming collision trying new name: '' @
                     base_share_name w @ '' #'' @ digits M),
          Avahi_entry_group_add_service g (base_share_name w @ '' #'' @ digits M)
            HKP_SERVICE_TYPE (seahorse_hkp_server_get_port w q)]
         @ (if 0 \<le> avahi_entry_group_add_service w g
                      (base_share_name w @ '' #'' @ digits M)
                      HKP_SERVICE_TYPE (seahorse_hkp_server_get_port w q)
            then [Avahi_entry_group_commit g] else [])
         @ [G_warning ''failed to register _pgpkey-hkp._tcp service'',
            Avahi_entry_group_free g]
         @ (case avahi_client q of None \<Rightarrow> [] | Some c \<Rightarrow> [Avahi_client_free c])
         @ [Show_error ''Couldn't share keys''
              ''Can't publish discovery information on the network.'']))"
proof (intro conjI impI)
  assume a: "avahi_group s = Some g \<and> share_alternate s = 0 \<and> 1 \<le> N \<and> N < 2 ^ 31
     \<and> (\<forall>k. 1 \<le> k \<and> k \<le> N \<longrightarrow>
            0 \<le> avahi_entry_group_add_service w g (base_share_name w @ '' #'' @ digits k)
                  HKP_SERVICE_TYPE (seahorse_hkp_server_get_port w s))
     \<and> 0 \<le> avahi_entry_group_commit w g"
  then obtain m where N: "N = Suc m" by (cases N) simp_all
  have m: "m < 2 ^ 31" and b: "Suc m < 2 ^ 31" using a N by simp_all
  have am: "\<forall>k. 1 \<le> k \<and> k \<le> m \<longrightarrow>
            0 \<le> avahi_entry_group_add_service w g (base_share_name w @ '' #'' @ digits k)
                  HKP_SERVICE_TYPE (seahorse_hkp_server_get_port w s)"
    using a N by simp
  have g: "avahi_group s = Some g" and z: "share_alternate s = 0"
    and c: "0 \<le> avahi_entry_group_commit w g" using a by simp_all
  from collisions_ok [OF g z c m am]
  obtain s1 where s1: "collisions w g m s = Some s1" "share_alternate s1 = of_nat m"
    "avahi_group s1 = Some g" "avahi_client s1 = avahi_client s" "soup_server s1 = soup_server s"
    by blast
  have p: "seahorse_hkp_server_get_port w s1 = seahorse_hkp_server_get_port w s"
    by (rule seahorse_hkp_server_get_port_cong) (rule s1(5))
  have ok: "0 \<le> avahi_entry_group_add_service w g (base_share_name w @ '' #'' @ digits (Suc m))
                  HKP_SERVICE_TYPE (seahorse_hkp_server_get_port w s1)"
    unfolding p using a N by simp
  from services_callback_collision_ok [OF s1(3) s1(2) b ok c, unfolded p s1(4)]
  obtain sN where sN: "services_callback w g AVAHI_ENTRY_GROUP_COLLISION s1 = Some sN"
    "share_name sN = Some (base_share_name w @ '' #'' @ digits (Suc m))"
    "avahi_group sN = Some g" "avahi_client sN = avahi_client s"
    "trace sN = trace s1 @
         [G_warning (''naming collision trying new name: '' @
                     base_share_name w @ '' #'' @ digits (Suc m)),
          Avahi_entry_group_add_service g (base_share_name w @ '' #'' @ digits (Suc m))
            HKP_SERVICE_TYPE (seahorse_hkp_server_get_port w s),
          Avahi_entry_group_commit g]"
    by blast
  have cN: "collisions w g (Suc m) s = Some sN" by (simp add: s1(1) sN(1))
  have d: "collisions w g (Suc m - 1) s = Some s1" by (simp add: s1(1))
  show "\<exists>s1 sN.
       collisions w g (N - 1) s = Some s1
     \<and> services_callback w g AVAHI_ENTRY_GROUP_COLLISION s1 = Some sN
     \<and> collisions w g N s = Some sN
     \<and> share_name sN = Some (base_share_name w @ '' #'' @ digits N)
     \<and> trace sN = trace s1 @
         [G_warning (''naming collision trying new name: '' @
                     base_share_name w @ '' #'' @ digits N),
          Avahi_entry_group_add_service g (base_share_name w @ '' #'' @ digits N)
            HKP_SERVICE_TYPE (seahorse_hkp_server_get_port w s),
          Avahi_entry_group_commit g]
     \<and> avahi_group sN = Some g \<and> avahi_client sN = avahi_client s"
    unfolding N using d sN cN by blast
next
  assume a: "collisions w g (M - 1) r = Some q \<and> avahi_group q = Some g
       \<and> share_alternate q = of_nat (M - 1) \<and> 1 \<le> M \<and> M < 2 ^ 31
       \<and> (avahi_entry_group_add_service w g (base_share_name w @ '' #'' @ digits M)
             HKP_SERVICE_TYPE (seahorse_hkp_server_get_port w q) < 0
           \<or> avahi_entry_group_commit w g < 0)"
  then obtain m where M: "M = Suc m" by (cases M) simp_all
  have g: "avahi_group q = Some g" and n: "share_alternate q = of_nat m"
    and b: "Suc m < 2 ^ 31" and c: "collisions w g m r = Some q"
    and f: "avahi_entry_group_add_service w g (base_share_name w @ '' #'' @ digits (Suc m))
             HKP_SERVICE_TYPE (seahorse_hkp_server_get_port w q) < 0
           \<or> avahi_entry_group_commit w g < 0"
    using a M by simp_all
  from services_callback_collision_refused [OF g n b f]
  obtain t where t: "services_callback w g AVAHI_ENTRY_GROUP_COLLISION q = Some t"
     "share_name t = None" "avahi_group t = None" "avahi_client t = None"
     "trace t = trace q @
         [G_warning (''naming collision trying new name: '' @
                     base_share_name w @ '' #'' @ digits (Suc m)),
          Avahi_entry_group_add_service g (base_share_name w @ '' #'' @ digits (Suc m))
            HKP_SERVICE_TYPE (seahorse_hkp_server_get_port w q)]
         @ (if 0 \<le> avahi_entry_group_add_service w g
                      (base_share_name w @ '' #'' @ digits (Suc m))
                      HKP_SERVICE_TYPE (seahorse_hkp_server_get_port w q)
            then [Avahi_entry_group_commit g] else [])
         @ [G_warning ''failed to register _pgpkey-hkp._tcp service'',
            Avahi_entry_group_free g]
         @ (case avahi_client q of None \<Rightarrow> [] | Some c \<Rightarrow> [Avahi_client_free c])
         @ [Show_error ''Couldn't share keys''
              ''Can't publish discovery information on the network.'']"
    by blast
  have cM: "collisions w g (Suc m) r = Some t" by (simp add: c t(1))
  show "\<exists>t.
       services_callback w g AVAHI_ENTRY_GROUP_COLLISION q = Some t
     \<and> collisions w g M r = Some t
     \<and> share_name t = None \<and> avahi_group t = None \<and> avahi_client t = None
     \<and> trace t = trace q @
         [G_warning (''naming collision trying new name: '' @
                     base_share_name w @ '' #'' @ digits M),
          Avahi_entry_group_add_service g (base_share_name w @ '' #'' @ digits M)
            HKP_SERVICE_TYPE (seahorse_hkp_server_get_port w q)]
         @ (if 0 \<le> avahi_entry_group_add_service w g
                      (base_share_name w @ '' #'' @ digits M)
                      HKP_SERVICE_TYPE (seahorse_hkp_server_get_port w q)
            then [Avahi_entry_group_commit g] else [])
         @ [G_warning ''failed to register _pgpkey-hkp._tcp service'',
            Avahi_entry_group_free g]
         @ (case avahi_client q of None \<Rightarrow> [] | Some c \<Rightarrow> [Avahi_client_free c])
         @ [Show_error ''Couldn't share keys''
              ''Can't publish discovery information on the network.'']"
    unfolding M using t cM by blast
qed

theorem collisions_rename_witness:
  "(\<exists>sN. collisions sample_world_63 3 2 sample_daemon = Some sN
      \<and> share_name sN = Some (''Alice'' @ [CHR 0x27] @ ''s encryption keys #2'')
      \<and> avahi_group sN = Some 3 \<and> avahi_client sN = Some 4)
   \<and> (\<exists>t. collisions sample_world_refusing 3 1 sample_daemon = Some t
      \<and> share_name t = None \<and> avahi_group t = None \<and> avahi_client t = None
      \<and> trace t =
          [G_warning (''naming collision trying new name: '' @
                      ''Alice'' @ [CHR 0x27] @ ''s encryption keys #1''),
           Avahi_entry_group_add_service 3 (''Alice'' @ [CHR 0x27] @ ''s encryption keys #1'')
             HKP_SERVICE_TYPE 40000,
           G_warning ''failed to register _pgpkey-hkp._tcp service'',
           Avahi_entry_group_free 3, Avahi_client_free 4,
           Show_error ''Couldn't share keys''
             ''Can't publish discovery information on the network.''])"
proof
  have b: "base_share_name sample_world_63 = ''Alice'' @ [CHR 0x27] @ ''s encryption keys''"
    by (simp add: base_share_name_def sample_world_63_def sample_world_def)
  have d: "digits 1 = ''1''" "digits 2 = ''2''" by code_simp+
  have h: "avahi_group sample_daemon = Some 3" "share_alternate sample_daemon = 0"
    "avahi_client sample_daemon = Some 4"
    by (simp_all add: sample_daemon_def)
  have e: "\<And>g name type port. avahi_entry_group_add_service sample_world_63 g name type port =
             (if length name \<le> 63 then 0 else - 10)"
    by (simp add: sample_world_63_def)
  have a: "\<forall>k. 1 \<le> k \<and> k \<le> 2 \<longrightarrow>
              0 \<le> avahi_entry_group_add_service sample_world_63 3
                    (base_share_name sample_world_63 @ '' #'' @ digits k) HKP_SERVICE_TYPE
                    (seahorse_hkp_server_get_port sample_world_63 sample_daemon)"
  proof (intro allI impI)
    fix k :: nat
    assume "1 \<le> k \<and> k \<le> 2"
    then have "k = 1 \<or> k = 2" by auto
    then show "0 \<le> avahi_entry_group_add_service sample_world_63 3
                    (base_share_name sample_world_63 @ '' #'' @ digits k) HKP_SERVICE_TYPE
                    (seahorse_hkp_server_get_port sample_world_63 sample_daemon)"
      unfolding b using d by (auto simp: e)
  qed
  have c: "0 \<le> avahi_entry_group_commit sample_world_63 3"
    by (simp add: sample_world_63_def sample_world_def)
  note r = collisions_rename [where s = sample_daemon and g = 3 and N = 2
             and w = sample_world_63, THEN conjunct1, rule_format, unfolded b d h(3)]
  from r h(1,2) a c
  show "\<exists>sN. collisions sample_world_63 3 2 sample_daemon = Some sN
      \<and> share_name sN = Some (''Alice'' @ [CHR 0x27] @ ''s encryption keys #2'')
      \<and> avahi_group sN = Some 3 \<and> avahi_client sN = Some 4"
    unfolding b d by clarsimp
next
  have b: "base_share_name sample_world_refusing = ''Alice'' @ [CHR 0x27] @ ''s encryption keys''"
    by (simp add: base_share_name_def sample_world_refusing_def sample_world_def)
  have d: "digits 1 = ''1''" by code_simp
  have h: "collisions sample_world_refusing 3 (1 - 1) sample_daemon = Some sample_daemon"
    "avahi_group sample_daemon = Some 3" "share_alternate sample_daemon = of_nat (1 - 1)"
    "avahi_client sample_daemon = Some 4" "trace sample_daemon = []"
    by (simp_all add: sample_daemon_def)
  have p: "seahorse_hkp_server_get_port sample_world_refusing sample_daemon = 40000"
    by (simp add: seahorse_hkp_server_get_port_def sample_daemon_def
          sample_world_refusing_def sample_world_def)
  have f: "avahi_entry_group_add_service sample_world_refusing 3
             (''Alice'' @ [CHR 0x27] @ ''s encryption keys'' @ '' #'' @ ''1'') HKP_SERVICE_TYPE 40000 < 0"
    by (simp add: sample_world_refusing_def sample_world_def)
  note r = collisions_rename [where M = 1 and r = sample_daemon and q = sample_daemon
             and g = 3 and w = sample_world_refusing, THEN conjunct2, unfolded b d p]
  from r h f
  show "\<exists>t. collisions sample_world_refusing 3 1 sample_daemon = Some t
      \<and> share_name t = None \<and> avahi_group t = None \<and> avahi_client t = None
      \<and> trace t =
          [G_warning (''naming collision trying new name: '' @
                      ''Alice'' @ [CHR 0x27] @ ''s encryption keys #1''),
           Avahi_entry_group_add_service 3 (''Alice'' @ [CHR 0x27] @ ''s encryption keys #1'')
             HKP_SERVICE_TYPE 40000,
           G_warning ''failed to register _pgpkey-hkp._tcp service'',
           Avahi_entry_group_free 3, Avahi_client_free 4,
           Show_error ''Couldn't share keys''
             ''Can't publish discovery information on the network.'']"
    by clarsimp
qed

text \<open>
  Claim C4, as stated, fails when Avahi refuses the service record (as it does for a
  name that is too long): \<^verbatim>\<open>add_service\<close> then calls \<^verbatim>\<open>stop_publishing\<close>, and after the
  first collision the share name is \<^verbatim>\<open>NULL\<close>, not the base name followed by \<^verbatim>\<open> #1\<close>.
\<close>

theorem collisions_rename_counterexample:
  "\<exists>s'. collisions sample_world_refusing 3 1 sample_daemon = Some s'
      \<and> share_name s' = None
      \<and> share_name s' \<noteq> Some (base_share_name sample_world_refusing @ '' #1'')"
proof -
  define s2 where "s2 = emit (G_warning (''naming collision trying new name: '' @
       base_share_name sample_world_refusing @ '' #'' @ digits 1))
     (sample_daemon\<lparr>share_alternate := 1,
        share_name := Some (base_share_name sample_world_refusing @ '' #'' @ digits 1)\<rparr>)"
  have c: "calc_share_name sample_world_refusing (sample_daemon\<lparr>share_alternate := 0 + 1\<rparr>) =
       sample_daemon\<lparr>share_alternate := 1,
        share_name := Some (base_share_name sample_world_refusing @ '' #'' @ digits 1)\<rparr>"
    by (simp add: calc_share_name_def Let_def printf_d_def)
  have cb: "services_callback sample_world_refusing 3 AVAHI_ENTRY_GROUP_COLLISION sample_daemon =
      add_service sample_world_refusing s2"
    unfolding services_callback_def Let_def s2_def
    using c by (simp add: sample_daemon_def)
  have f: "avahi_group s2 = Some 3"
    "share_name s2 = Some (base_share_name sample_world_refusing @ '' #'' @ digits 1)"
    by (simp_all add: s2_def emit_fields sample_daemon_def)
  have neg: "avahi_entry_group_add_service sample_world_refusing 3
       (base_share_name sample_world_refusing @ '' #'' @ digits 1) HKP_SERVICE_TYPE
       (seahorse_hkp_server_get_port sample_world_refusing s2) < 0"
    by (simp add: sample_world_refusing_def sample_world_def)
  note r = add_service_refused [OF f neg]
  have "collisions sample_world_refusing 3 1 sample_daemon = add_service sample_world_refusing s2"
    by (simp add: cb)
  then show ?thesis
    unfolding r by (simp add: stop_publishing_handles)
qed

end
